theory Spec2Isabelle
  imports Complex_Main
begin

section \<open>Data model of the download manager\<close>

text \<open>
  The download manager is the module that starts with the imports of AsyncStorage,
  expo-file-system and expo-network. Its TypeScript interfaces become records. A field
  declared with \<open>?\<close> is an \<open>option\<close>; \<open>id\<close> and \<open>title\<close> of the input song are
  options too, because \<open>downloadSong\<close> tests them for truthiness and so expects
  callers that leave them out. Sizes are byte counts, modelled as integers.
\<close>

record SongSize =
  sz_lyrics :: "int option"
  sz_audio :: "int option"
  sz_notation :: "int option"

record DownloadableSong =
  s_id :: "string option"
  s_number :: int
  s_title :: "string option"
  lyricsUrl :: "string option"
  audioUrl :: "string option"
  notationUrl :: "string option"
  s_size :: "SongSize option"

record Artifact =
  localUri :: string
  a_size :: int

record DownloadedSong =
  d_id :: string
  d_number :: int
  d_title :: string
  downloadDate :: string
  d_lyrics :: "Artifact option"
  d_audio :: "Artifact option"
  d_notation :: "Artifact option"
  totalSize :: int

datatype status = Pending | Downloading | Completed | Failed

record DownloadProgress =
  songId :: "string option"
  progress :: rat
  status :: status
  error :: "string option"

record DownloadOptions =
  includeAudio :: "bool option"
  includeNotation :: "bool option"
  showNotification :: "bool option"

text \<open>
  The settings object is whatever JSON was stored under \<open>download_settings\<close>, so each
  of its fields may be missing.
\<close>

record DownloadSettings =
  maxStorageSize :: "int option"
  autoDownloadOnWifi :: "bool option"
  downloadAudioByDefault :: "bool option"
  downloadNotationByDefault :: "bool option"
  notifyOnComplete :: "bool option"

definition DEFAULT_SETTINGS :: DownloadSettings where
  "DEFAULT_SETTINGS =
     \<lparr>maxStorageSize = Some (500 * 1024 * 1024),
      autoDownloadOnWifi = Some False,
      downloadAudioByDefault = Some False,
      downloadNotationByDefault = Some False,
      notifyOnComplete = Some True\<rparr>"

section \<open>The collaborators: key-value store, file store, network, notifications\<close>

text \<open>
  Every call of a collaborator (AsyncStorage, FileSystem, Network, Notifications) may
  throw. The world carries a schedule with the outcome of each coming call, in the
  order the calls are made; an exhausted schedule means that every further call
  returns normally. \<open>Throws m\<close> is an \<open>Error\<close> with message \<open>m\<close>. \<open>NoResult\<close> is a
  resumable download that resolves to \<open>undefined\<close>; for any other call it is a normal
  return.

  The two items of the key-value store hold the parsed values (\<open>JSON.parse\<close> after
  \<open>JSON.stringify\<close> is taken to be the identity); \<open>None\<close> is a key with no item. The
  file store maps a path to the size of the file there. \<open>events\<close> records the calls of
  the progress callback, oldest first.
\<close>

datatype outcome = Normal | Throws string | NoResult

record world =
  downloaded_songs :: "DownloadedSong list option"
  download_settings :: "DownloadSettings option"
  files :: "string \<Rightarrow> int option"
  isConnected :: bool
  events :: "DownloadProgress list"
  notifications :: "(string \<times> string) list"
  schedule :: "outcome list"

text \<open>
  What the platform fixes and the manager only reads: the document directory, the size
  of the resource behind a URL, the progress reports of the transport for a URL
  (bytes written, bytes expected), the clock, and whether the notifications module
  could be loaded. A transfer that fails may have received part of the resource:
  \<open>partial_bytes\<close> gives the size of what it leaves at its destination (\<open>None\<close> when
  it leaves nothing there), and \<open>reports_before_failure\<close> the progress reports a
  resumable transfer makes before it fails.
\<close>

record env =
  documentDirectory :: string
  remote :: "string \<Rightarrow> int"
  transport_reports :: "string \<Rightarrow> (int \<times> int) list"
  partial_bytes :: "string \<Rightarrow> int option"
  reports_before_failure :: "string \<Rightarrow> (int \<times> int) list"
  now :: string
  Notifications :: bool

definition next_outcome :: "world \<Rightarrow> outcome \<times> world" where
  "next_outcome w =
     (case schedule w of
        [] \<Rightarrow> (Normal, w)
      | out # rest \<Rightarrow> (out, w\<lparr>schedule := rest\<rparr>))"

definition getItem_DOWNLOADED_SONGS ::
    "world \<Rightarrow> (string + DownloadedSong list option) \<times> world" where
  "getItem_DOWNLOADED_SONGS w =
     (case next_outcome w of
        (Throws m, w') \<Rightarrow> (Inl m, w')
      | (_, w') \<Rightarrow> (Inr (downloaded_songs w'), w'))"

definition setItem_DOWNLOADED_SONGS ::
    "DownloadedSong list \<Rightarrow> world \<Rightarrow> (string + unit) \<times> world" where
  "setItem_DOWNLOADED_SONGS xs w =
     (case next_outcome w of
        (Throws m, w') \<Rightarrow> (Inl m, w')
      | (_, w') \<Rightarrow> (Inr (), w'\<lparr>downloaded_songs := Some xs\<rparr>))"

definition getItem_DOWNLOAD_SETTINGS ::
    "world \<Rightarrow> (string + DownloadSettings option) \<times> world" where
  "getItem_DOWNLOAD_SETTINGS w =
     (case next_outcome w of
        (Throws m, w') \<Rightarrow> (Inl m, w')
      | (_, w') \<Rightarrow> (Inr (download_settings w'), w'))"

definition setItem_DOWNLOAD_SETTINGS ::
    "DownloadSettings \<Rightarrow> world \<Rightarrow> (string + unit) \<times> world" where
  "setItem_DOWNLOAD_SETTINGS s w =
     (case next_outcome w of
        (Throws m, w') \<Rightarrow> (Inl m, w')
      | (_, w') \<Rightarrow> (Inr (), w'\<lparr>download_settings := Some s\<rparr>))"

definition getNetworkStateAsync :: "world \<Rightarrow> (string + bool) \<times> world" where
  "getNetworkStateAsync w =
     (case next_outcome w of
        (Throws m, w') \<Rightarrow> (Inl m, w')
      | (_, w') \<Rightarrow> (Inr (isConnected w'), w'))"

text \<open>
  \<open>FileSystem.downloadAsync\<close> writes the resource to the path; a transfer that throws
  leaves at the path what it had received, if anything. \<open>getInfoAsync\<close> returns the
  size of the file, or \<open>None\<close> when \<open>exists\<close> is false. \<open>deleteAsync\<close> is always
  called with \<open>idempotent: true\<close>, so a missing file is no error.
\<close>

definition leave_partial ::
    "env \<Rightarrow> string \<Rightarrow> string \<Rightarrow> (string \<Rightarrow> int option) \<Rightarrow> string \<Rightarrow> int option" where
  "leave_partial e url path f =
     (case partial_bytes e url of None \<Rightarrow> f | Some n \<Rightarrow> f(path \<mapsto> n))"

definition downloadAsync ::
    "env \<Rightarrow> string \<Rightarrow> string \<Rightarrow> world \<Rightarrow> (string + unit) \<times> world" where
  "downloadAsync e url path w =
     (case next_outcome w of
        (Throws m, w') \<Rightarrow> (Inl m, w'\<lparr>files := leave_partial e url path (files w')\<rparr>)
      | (_, w') \<Rightarrow> (Inr (), w'\<lparr>files := (files w')(path \<mapsto> remote e url)\<rparr>))"

definition getInfoAsync :: "string \<Rightarrow> world \<Rightarrow> (string + int option) \<times> world" where
  "getInfoAsync path w =
     (case next_outcome w of
        (Throws m, w') \<Rightarrow> (Inl m, w')
      | (_, w') \<Rightarrow> (Inr (files w' path), w'))"

definition deleteAsync :: "string \<Rightarrow> world \<Rightarrow> (string + unit) \<times> world" where
  "deleteAsync path w =
     (case next_outcome w of
        (Throws m, w') \<Rightarrow> (Inl m, w')
      | (_, w') \<Rightarrow> (Inr (), w'\<lparr>files := (files w')(path := None)\<rparr>))"

definition scheduleNotificationAsync ::
    "string \<Rightarrow> string \<Rightarrow> world \<Rightarrow> (string + unit) \<times> world" where
  "scheduleNotificationAsync title body w =
     (case next_outcome w of
        (Throws m, w') \<Rightarrow> (Inl m, w')
      | (_, w') \<Rightarrow> (Inr (), w'\<lparr>notifications := notifications w' @ [(title, body)]\<rparr>))"

section \<open>Settings\<close>

definition getDownloadSettings :: "world \<Rightarrow> DownloadSettings \<times> world" where
  "getDownloadSettings w =
     (case getItem_DOWNLOAD_SETTINGS w of
        (Inl m, w') \<Rightarrow> (DEFAULT_SETTINGS, w')
      | (Inr None, w') \<Rightarrow> (DEFAULT_SETTINGS, w')
      | (Inr (Some s), w') \<Rightarrow> (s, w'))"

text \<open>
  \<open>updateDownloadSettings\<close> spreads the argument over the current settings: a field
  the argument has wins.
\<close>

definition spread_settings :: "DownloadSettings \<Rightarrow> DownloadSettings \<Rightarrow> DownloadSettings" where
  "spread_settings base over =
     \<lparr>maxStorageSize =
        (case maxStorageSize over of None \<Rightarrow> maxStorageSize base | Some v \<Rightarrow> Some v),
      autoDownloadOnWifi =
        (case autoDownloadOnWifi over of None \<Rightarrow> autoDownloadOnWifi base | Some v \<Rightarrow> Some v),
      downloadAudioByDefault =
        (case downloadAudioByDefault over of
           None \<Rightarrow> downloadAudioByDefault base | Some v \<Rightarrow> Some v),
      downloadNotationByDefault =
        (case downloadNotationByDefault over of
           None \<Rightarrow> downloadNotationByDefault base | Some v \<Rightarrow> Some v),
      notifyOnComplete =
        (case notifyOnComplete over of None \<Rightarrow> notifyOnComplete base | Some v \<Rightarrow> Some v)\<rparr>"

definition updateDownloadSettings :: "DownloadSettings \<Rightarrow> world \<Rightarrow> bool \<times> world" where
  "updateDownloadSettings settings w =
     (case getDownloadSettings w of
        (currentSettings, w1) \<Rightarrow>
          (case setItem_DOWNLOAD_SETTINGS (spread_settings currentSettings settings) w1 of
             (Inl m, w2) \<Rightarrow> (False, w2)
           | (Inr u, w2) \<Rightarrow> (True, w2)))"

text \<open>
  The specification's reading of \<open>getDownloadSettings\<close>: the stored object merged over
  the hardcoded defaults, so that a field the stored object lacks takes its default.
\<close>

definition spec_merged_settings :: "DownloadSettings option \<Rightarrow> DownloadSettings" where
  "spec_merged_settings stored =
     (case stored of
        None \<Rightarrow> DEFAULT_SETTINGS
      | Some s \<Rightarrow> spread_settings DEFAULT_SETTINGS s)"

definition all_fields_present :: "DownloadSettings \<Rightarrow> bool" where
  "all_fields_present s \<longleftrightarrow>
     maxStorageSize s \<noteq> None \<and> autoDownloadOnWifi s \<noteq> None \<and>
     downloadAudioByDefault s \<noteq> None \<and> downloadNotationByDefault s \<noteq> None \<and>
     notifyOnComplete s \<noteq> None"

section \<open>Manifest\<close>

text \<open>
  \<open>getDownloadedSongs\<close> catches what the store throws and returns the empty list
  then. \<open>isSongDownloaded\<close>, \<open>getDownloadedSong\<close> and \<open>getCurrentStorageUsage\<close>
  have a \<open>catch\<close> of their own around it, which is therefore never entered.
\<close>

definition getDownloadedSongs :: "world \<Rightarrow> DownloadedSong list \<times> world" where
  "getDownloadedSongs w =
     (case getItem_DOWNLOADED_SONGS w of
        (Inl m, w') \<Rightarrow> ([], w')
      | (Inr None, w') \<Rightarrow> ([], w')
      | (Inr (Some xs), w') \<Rightarrow> (xs, w'))"

definition isSongDownloaded :: "string \<Rightarrow> world \<Rightarrow> bool \<times> world" where
  "isSongDownloaded sid w =
     (case getDownloadedSongs w of
        (downloadedSongs, w') \<Rightarrow> (list_ex (\<lambda>song. d_id song = sid) downloadedSongs, w'))"

definition getDownloadedSong :: "string \<Rightarrow> world \<Rightarrow> DownloadedSong option \<times> world" where
  "getDownloadedSong sid w =
     (case getDownloadedSongs w of
        (downloadedSongs, w') \<Rightarrow> (find (\<lambda>song. d_id song = sid) downloadedSongs, w'))"

definition getCurrentStorageUsage :: "world \<Rightarrow> int \<times> world" where
  "getCurrentStorageUsage w =
     (case getDownloadedSongs w of
        (downloadedSongs, w') \<Rightarrow>
          (foldl (\<lambda>total song. total + totalSize song) 0 downloadedSongs, w'))"

section \<open>Quota\<close>

text \<open>
  \<open>song.size?.lyrics\<close> and its siblings; a size counts when it is truthy, that is
  present and not zero.
\<close>

definition advisory :: "(SongSize \<Rightarrow> int option) \<Rightarrow> DownloadableSong \<Rightarrow> int option" where
  "advisory kind song = (case s_size song of None \<Rightarrow> None | Some sz \<Rightarrow> kind sz)"

definition truthy_num :: "int option \<Rightarrow> bool" where
  "truthy_num n \<longleftrightarrow> (case n of None \<Rightarrow> False | Some v \<Rightarrow> v \<noteq> 0)"

definition num_of :: "int option \<Rightarrow> int" where
  "num_of n = (case n of None \<Rightarrow> 0 | Some v \<Rightarrow> v)"

definition calculateTotalSize :: "DownloadableSong \<Rightarrow> DownloadOptions \<Rightarrow> int" where
  "calculateTotalSize song opts =
     (let totalSize0 = 0;
          totalSize1 =
            (if truthy_num (advisory sz_lyrics song)
             then totalSize0 + num_of (advisory sz_lyrics song) else totalSize0);
          totalSize2 =
            (if includeAudio opts = Some True \<and> truthy_num (advisory sz_audio song)
             then totalSize1 + num_of (advisory sz_audio song) else totalSize1);
          totalSize3 =
            (if includeNotation opts = Some True \<and> truthy_num (advisory sz_notation song)
             then totalSize2 + num_of (advisory sz_notation song) else totalSize2)
      in totalSize3)"

text \<open>
  \<open>currentUsage + totalSize > settings.maxStorageSize\<close>: against a missing
  \<open>maxStorageSize\<close> the comparison is false.
\<close>

definition exceeds :: "int \<Rightarrow> int option \<Rightarrow> bool" where
  "exceeds needed limit \<longleftrightarrow> (case limit of None \<Rightarrow> False | Some m \<Rightarrow> needed > m)"

section \<open>Downloading a song\<close>

definition BASE_DIRECTORY :: "env \<Rightarrow> string" where
  "BASE_DIRECTORY e = documentDirectory e @ ''downloads/''"

definition LYRICS_DIRECTORY :: "env \<Rightarrow> string" where
  "LYRICS_DIRECTORY e = BASE_DIRECTORY e @ ''lyrics/''"

definition AUDIO_DIRECTORY :: "env \<Rightarrow> string" where
  "AUDIO_DIRECTORY e = BASE_DIRECTORY e @ ''audio/''"

definition NOTATION_DIRECTORY :: "env \<Rightarrow> string" where
  "NOTATION_DIRECTORY e = BASE_DIRECTORY e @ ''notation/''"

text \<open>\<open>url.split('.').pop() || dflt\<close>: what follows the last dot, the whole string when it
  has no dot, and the default when that is empty.\<close>

definition split_pop :: "string \<Rightarrow> string" where
  "split_pop s = rev (takeWhile (\<lambda>c. c \<noteq> CHR ''.'') (rev s))"

definition extension_or :: "string \<Rightarrow> string \<Rightarrow> string" where
  "extension_or url dflt = (if split_pop url = [] then dflt else split_pop url)"

text \<open>The file names of the three artifacts of a song: \<open>{id}_{kind}.{ext}\<close>.\<close>

definition lyrics_path :: "env \<Rightarrow> string \<Rightarrow> string" where
  "lyrics_path e i = LYRICS_DIRECTORY e @ i @ ''_lyrics.txt''"

definition audio_path :: "env \<Rightarrow> string \<Rightarrow> string \<Rightarrow> string" where
  "audio_path e i url = AUDIO_DIRECTORY e @ i @ ''_audio.'' @ extension_or url ''mp3''"

definition notation_path :: "env \<Rightarrow> string \<Rightarrow> string \<Rightarrow> string" where
  "notation_path e i url = NOTATION_DIRECTORY e @ i @ ''_notation.'' @ extension_or url ''pdf''"

text \<open>A string is falsy when it is missing or empty.\<close>

definition falsy_str :: "string option \<Rightarrow> bool" where
  "falsy_str s \<longleftrightarrow> s = None \<or> s = Some []"

definition text_of :: "string option \<Rightarrow> string" where
  "text_of s = (case s of None \<Rightarrow> [] | Some t \<Rightarrow> t)"

text \<open>The URL of an artifact that is to be transferred: requested and truthy.\<close>

definition wanted :: "bool \<Rightarrow> string option \<Rightarrow> string option" where
  "wanted requested url = (if requested \<and> \<not> falsy_str url then url else None)"

text \<open>
  \<open>progressCallback\<close> is optional: \<open>cb\<close> tells whether the caller passed one. A
  callback that was passed is taken to return normally; its calls are recorded.
\<close>

definition report :: "bool \<Rightarrow> DownloadProgress \<Rightarrow> world \<Rightarrow> world" where
  "report cb p w = (if cb then w\<lparr>events := events w @ [p]\<rparr> else w)"

text \<open>\<open>(info.exists && 'size' in info) ? info.size || 0 : 0\<close>\<close>

definition measured :: "int option \<Rightarrow> int" where
  "measured info = (case info of None \<Rightarrow> 0 | Some n \<Rightarrow> n)"

text \<open>
  Each artifact block takes the record under construction and the list
  \<open>downloadedFiles\<close>, and returns them updated, or the message of the error its inner
  \<open>catch\<close> throws again.
\<close>

definition download_lyrics ::
    "env \<Rightarrow> string \<Rightarrow> string \<Rightarrow> DownloadedSong \<Rightarrow> string list \<Rightarrow> world
      \<Rightarrow> (string + DownloadedSong) \<times> string list \<times> world" where
  "download_lyrics e i url downloadedSong downloadedFiles w =
     (let lyricsUri = lyrics_path e i in
      case downloadAsync e url lyricsUri w of
        (Inl m, w1) \<Rightarrow> (Inl (''Failed to download lyrics: '' @ m), downloadedFiles, w1)
      | (Inr u, w1) \<Rightarrow>
          (case getInfoAsync lyricsUri w1 of
             (Inl m, w2) \<Rightarrow>
               (Inl (''Failed to download lyrics: '' @ m), downloadedFiles @ [lyricsUri], w2)
           | (Inr lyricsInfo, w2) \<Rightarrow>
               (Inr (downloadedSong
                      \<lparr>d_lyrics := Some \<lparr>localUri = lyricsUri, a_size = measured lyricsInfo\<rparr>,
                       totalSize := totalSize downloadedSong + measured lyricsInfo\<rparr>),
                downloadedFiles @ [lyricsUri], w2)))"

text \<open>
  The audio goes through a resumable download whose transport reports progress; the
  callback passes a report on when a progress callback was given and the expected
  size is positive. A transfer that throws or resolves to \<open>undefined\<close> has made the
  reports of \<open>reports_before_failure\<close> and leaves at the path what it had received.
\<close>

definition on_transport_progress ::
    "bool \<Rightarrow> string option \<Rightarrow> int \<times> int \<Rightarrow> world \<Rightarrow> world" where
  "on_transport_progress cb sid r w =
     (case r of
        (totalBytesWritten, totalBytesExpectedToWrite) \<Rightarrow>
          if cb \<and> totalBytesExpectedToWrite > 0
          then report cb
                 \<lparr>songId = sid,
                  progress = min (of_int totalBytesWritten / of_int totalBytesExpectedToWrite) 1,
                  status = Downloading, error = None\<rparr> w
          else w)"

definition resumable_downloadAsync ::
    "env \<Rightarrow> bool \<Rightarrow> string option \<Rightarrow> string \<Rightarrow> string \<Rightarrow> world \<Rightarrow> (string + bool) \<times> world" where
  "resumable_downloadAsync e cb sid url path w =
     (case next_outcome w of
        (Throws m, w') \<Rightarrow>
          (Inl m,
           (foldl (\<lambda>v r. on_transport_progress cb sid r v) w' (reports_before_failure e url))
             \<lparr>files := leave_partial e url path (files w')\<rparr>)
      | (NoResult, w') \<Rightarrow>
          (Inr False,
           (foldl (\<lambda>v r. on_transport_progress cb sid r v) w' (reports_before_failure e url))
             \<lparr>files := leave_partial e url path (files w')\<rparr>)
      | (Normal, w') \<Rightarrow>
          (Inr True,
           (foldl (\<lambda>v r. on_transport_progress cb sid r v) w' (transport_reports e url))
             \<lparr>files := (files w')(path \<mapsto> remote e url)\<rparr>))"

definition download_audio ::
    "env \<Rightarrow> bool \<Rightarrow> string option \<Rightarrow> string \<Rightarrow> string \<Rightarrow> DownloadedSong \<Rightarrow> string list \<Rightarrow> world
      \<Rightarrow> (string + DownloadedSong) \<times> string list \<times> world" where
  "download_audio e cb sid i url downloadedSong downloadedFiles w =
     (let audioUri = audio_path e i url in
      case resumable_downloadAsync e cb sid url audioUri w of
        (Inl m, w1) \<Rightarrow> (Inl (''Failed to download audio: '' @ m), downloadedFiles, w1)
      | (Inr False, w1) \<Rightarrow>
          (Inl (''Failed to download audio: '' @ ''Download failed''), downloadedFiles, w1)
      | (Inr True, w1) \<Rightarrow>
          (case getInfoAsync audioUri w1 of
             (Inl m, w2) \<Rightarrow>
               (Inl (''Failed to download audio: '' @ m), downloadedFiles @ [audioUri], w2)
           | (Inr audioInfo, w2) \<Rightarrow>
               (Inr (downloadedSong
                      \<lparr>d_audio := Some \<lparr>localUri = audioUri, a_size = measured audioInfo\<rparr>,
                       totalSize := totalSize downloadedSong + measured audioInfo\<rparr>),
                downloadedFiles @ [audioUri], w2)))"

definition download_notation ::
    "env \<Rightarrow> string \<Rightarrow> string \<Rightarrow> DownloadedSong \<Rightarrow> string list \<Rightarrow> world
      \<Rightarrow> (string + DownloadedSong) \<times> string list \<times> world" where
  "download_notation e i url downloadedSong downloadedFiles w =
     (let notationUri = notation_path e i url in
      case downloadAsync e url notationUri w of
        (Inl m, w1) \<Rightarrow> (Inl (''Failed to download notation: '' @ m), downloadedFiles, w1)
      | (Inr u, w1) \<Rightarrow>
          (case getInfoAsync notationUri w1 of
             (Inl m, w2) \<Rightarrow>
               (Inl (''Failed to download notation: '' @ m), downloadedFiles @ [notationUri], w2)
           | (Inr notationInfo, w2) \<Rightarrow>
               (Inr (downloadedSong
                      \<lparr>d_notation :=
                         Some \<lparr>localUri = notationUri, a_size = measured notationInfo\<rparr>,
                       totalSize := totalSize downloadedSong + measured notationInfo\<rparr>),
                downloadedFiles @ [notationUri], w2)))"

text \<open>The three artifact blocks in their fixed order: lyrics, audio, notation.\<close>

definition transfer_artifacts ::
    "env \<Rightarrow> DownloadableSong \<Rightarrow> DownloadOptions \<Rightarrow> bool \<Rightarrow> DownloadedSong \<Rightarrow> world
      \<Rightarrow> (string + DownloadedSong) \<times> string list \<times> world" where
  "transfer_artifacts e song opts cb downloadedSong w =
     (let i = text_of (s_id song) in
      case (case wanted True (lyricsUrl song) of
              None \<Rightarrow> (Inr downloadedSong, [], w)
            | Some url \<Rightarrow> download_lyrics e i url downloadedSong [] w) of
        (Inl m, fs1, w1) \<Rightarrow> (Inl m, fs1, w1)
      | (Inr ds1, fs1, w1) \<Rightarrow>
          (case (case wanted (includeAudio opts = Some True) (audioUrl song) of
                   None \<Rightarrow> (Inr ds1, fs1, w1)
                 | Some url \<Rightarrow> download_audio e cb (s_id song) i url ds1 fs1 w1) of
             (Inl m, fs2, w2) \<Rightarrow> (Inl m, fs2, w2)
           | (Inr ds2, fs2, w2) \<Rightarrow>
               (case wanted (includeNotation opts = Some True) (notationUrl song) of
                  None \<Rightarrow> (Inr ds2, fs2, w2)
                | Some url \<Rightarrow> download_notation e i url ds2 fs2 w2)))"

definition save_download :: "DownloadedSong \<Rightarrow> world \<Rightarrow> (string + unit) \<times> world" where
  "save_download downloadedSong w =
     (case getDownloadedSongs w of
        (downloadedSongs, w1) \<Rightarrow>
          setItem_DOWNLOADED_SONGS (downloadedSongs @ [downloadedSong]) w1)"

definition notify_complete :: "env \<Rightarrow> DownloadOptions \<Rightarrow> string \<Rightarrow> world \<Rightarrow> world" where
  "notify_complete e opts title w =
     (if showNotification opts = Some True \<and> Notifications e
      then snd (scheduleNotificationAsync ''Download Complete''
                  ([CHR 0x22] @ title @ [CHR 0x22] @ '' has been downloaded for offline use.'') w)
      else w)"

text \<open>The record \<open>downloadSong\<close> creates before any transfer.\<close>

definition new_download :: "env \<Rightarrow> DownloadableSong \<Rightarrow> DownloadedSong" where
  "new_download e song =
     \<lparr>d_id = text_of (s_id song), d_number = s_number song,
      d_title = text_of (s_title song), downloadDate = now e,
      d_lyrics = None, d_audio = None, d_notation = None, totalSize = 0\<rparr>"

definition started :: "DownloadableSong \<Rightarrow> DownloadProgress" where
  "started song = \<lparr>songId = s_id song, progress = 0, status = Downloading, error = None\<rparr>"

definition completed :: "DownloadableSong \<Rightarrow> DownloadProgress" where
  "completed song = \<lparr>songId = s_id song, progress = 1, status = Completed, error = None\<rparr>"

definition failed :: "DownloadableSong \<Rightarrow> string \<Rightarrow> DownloadProgress" where
  "failed song m = \<lparr>songId = s_id song, progress = 0, status = Failed, error = Some m\<rparr>"

text \<open>What \<open>downloadSong\<close> does once the four preconditions have let the call through.\<close>

definition acquire ::
    "env \<Rightarrow> DownloadableSong \<Rightarrow> DownloadOptions \<Rightarrow> bool \<Rightarrow> world
      \<Rightarrow> (string + DownloadedSong option) \<times> string list \<times> world" where
  "acquire e song opts cb w =
     (case transfer_artifacts e song opts cb (new_download e song) (report cb (started song) w) of
        (Inl m, fs, w1) \<Rightarrow> (Inl m, fs, w1)
      | (Inr ds, fs, w1) \<Rightarrow>
          (case save_download ds w1 of
             (Inl m, w2) \<Rightarrow> (Inl m, fs, w2)
           | (Inr u, w2) \<Rightarrow>
               (Inr (Some ds), fs,
                report cb (completed song) (notify_complete e opts (text_of (s_title song)) w2))))"

text \<open>
  The four preconditions of \<open>downloadSong\<close>, in the order of the source: the input is
  valid, the network is connected, the song is not yet downloaded (else the stored
  entry is returned at once), the quota admits the download.
\<close>

datatype precheck = CacheHit "DownloadedSong option" | Proceed

definition preconditions ::
    "DownloadableSong \<Rightarrow> DownloadOptions \<Rightarrow> world \<Rightarrow> (string + precheck) \<times> world" where
  "preconditions s opts w =
     (if falsy_str (s_id s) \<or> falsy_str (s_title s) then (Inl ''Invalid song data'', w)
      else
        (case getNetworkStateAsync w of
           (Inl m, w1) \<Rightarrow> (Inl m, w1)
         | (Inr netConnected, w1) \<Rightarrow>
             if \<not> netConnected then (Inl ''No internet connection'', w1)
             else
               (case isSongDownloaded (text_of (s_id s)) w1 of
                  (isAlreadyDownloaded, w2) \<Rightarrow>
                    if isAlreadyDownloaded then
                      (case getDownloadedSong (text_of (s_id s)) w2 of
                         (existing, w3) \<Rightarrow> (Inr (CacheHit existing), w3))
                    else
                      (case getItem_DOWNLOAD_SETTINGS w2 of
                         (Inl m, w3) \<Rightarrow> (Inl m, w3)
                       | (Inr settingsData, w3) \<Rightarrow>
                           (let settings =
                                  (case settingsData of
                                     None \<Rightarrow> DEFAULT_SETTINGS | Some stored \<Rightarrow> stored);
                                requestedSize = calculateTotalSize s opts
                            in case getCurrentStorageUsage w3 of
                                 (currentUsage, w4) \<Rightarrow>
                                   if exceeds (currentUsage + requestedSize)
                                        (maxStorageSize settings)
                                   then (Inl ''Not enough storage space'', w4)
                                   else (Inr Proceed, w4))))))"

text \<open>
  The \<open>try\<close> block of \<open>downloadSong\<close>: the value returned, or the message of the error
  thrown, together with \<open>downloadedFiles\<close> as it stands then. A \<open>null\<close> song is \<open>None\<close>.
\<close>

definition downloadSong_try ::
    "env \<Rightarrow> DownloadableSong option \<Rightarrow> DownloadOptions \<Rightarrow> bool \<Rightarrow> world
      \<Rightarrow> (string + DownloadedSong option) \<times> string list \<times> world" where
  "downloadSong_try e song opts cb w =
     (case song of
        None \<Rightarrow> (Inl ''Invalid song data'', [], w)
      | Some s \<Rightarrow>
          (case preconditions s opts w of
             (Inl m, w1) \<Rightarrow> (Inl m, [], w1)
           | (Inr (CacheHit existing), w1) \<Rightarrow> (Inr existing, [], w1)
           | (Inr Proceed, w1) \<Rightarrow> acquire e s opts cb w1))"

text \<open>The \<open>catch\<close> block deletes the files of \<open>downloadedFiles\<close>, each in its own \<open>try\<close>.\<close>

fun cleanup :: "string list \<Rightarrow> world \<Rightarrow> world" where
  "cleanup [] w = w"
| "cleanup (filePath # rest) w = cleanup rest (snd (deleteAsync filePath w))"

text \<open>
  \<open>downloadSong\<close> with its \<open>catch\<close> block. The block reads \<open>song.id\<close> when it builds
  the event for the progress callback; on a \<open>null\<close> song that read throws a
  \<open>TypeError\<close>, which nothing catches, and the promise is rejected (\<open>Inl\<close>).
\<close>

datatype exn = TypeError

definition downloadSong ::
    "env \<Rightarrow> DownloadableSong option \<Rightarrow> DownloadOptions \<Rightarrow> bool \<Rightarrow> world
      \<Rightarrow> (exn + DownloadedSong option) \<times> world" where
  "downloadSong e song opts cb w =
     (case downloadSong_try e song opts cb w of
        (Inr r, downloadedFiles, w1) \<Rightarrow> (Inr r, w1)
      | (Inl m, downloadedFiles, w1) \<Rightarrow>
          (let w2 = cleanup downloadedFiles w1 in
           if cb then
             (case song of
                None \<Rightarrow> (Inl TypeError, w2)
              | Some s \<Rightarrow>
                  (Inr None, report cb (failed s m) w2))
           else (Inr None, w2)))"

section \<open>Deleting\<close>

definition delete_artifact :: "Artifact option \<Rightarrow> world \<Rightarrow> (string + unit) \<times> world" where
  "delete_artifact a w = (case a of None \<Rightarrow> (Inr (), w) | Some f \<Rightarrow> deleteAsync (localUri f) w)"

text \<open>The three deletions of \<open>deleteSong\<close>; the first that throws ends them.\<close>

definition delete_files :: "DownloadedSong \<Rightarrow> world \<Rightarrow> (string + unit) \<times> world" where
  "delete_files downloadedSong w =
     (case delete_artifact (d_lyrics downloadedSong) w of
        (Inl m, w1) \<Rightarrow> (Inl m, w1)
      | (Inr u, w1) \<Rightarrow>
          (case delete_artifact (d_audio downloadedSong) w1 of
             (Inl m, w2) \<Rightarrow> (Inl m, w2)
           | (Inr u, w2) \<Rightarrow> delete_artifact (d_notation downloadedSong) w2))"

definition deleteSong :: "string \<Rightarrow> world \<Rightarrow> bool \<times> world" where
  "deleteSong sid w =
     (case getDownloadedSong sid w of
        (None, w1) \<Rightarrow> (False, w1)
      | (Some downloadedSong, w1) \<Rightarrow>
          (case delete_files downloadedSong w1 of
             (Inl m, w2) \<Rightarrow> (False, w2)
           | (Inr u, w2) \<Rightarrow>
               (case getDownloadedSongs w2 of
                  (downloadedSongs, w3) \<Rightarrow>
                    (case setItem_DOWNLOADED_SONGS
                            (filter (\<lambda>song. d_id song \<noteq> sid) downloadedSongs) w3 of
                       (Inl m, w4) \<Rightarrow> (False, w4)
                     | (Inr u, w4) \<Rightarrow> (True, w4)))))"

fun delete_each :: "DownloadedSong list \<Rightarrow> world \<Rightarrow> world" where
  "delete_each [] w = w"
| "delete_each (song # rest) w = delete_each rest (snd (deleteSong (d_id song) w))"

definition clearAllDownloads :: "world \<Rightarrow> bool \<times> world" where
  "clearAllDownloads w =
     (case getDownloadedSongs w of
        (downloadedSongs, w1) \<Rightarrow>
          (case setItem_DOWNLOADED_SONGS [] (delete_each downloadedSongs w1) of
             (Inl m, w2) \<Rightarrow> (False, w2)
           | (Inr u, w2) \<Rightarrow> (True, w2)))"

section \<open>Vocabulary of the properties\<close>

text \<open>
  The manifest and the settings as a read that does not throw finds them, the current
  usage computed from that manifest, and the outcome the \<open>k\<close>-th coming call of a
  collaborator will have.
\<close>

definition manifest_of :: "world \<Rightarrow> DownloadedSong list" where
  "manifest_of w = (case downloaded_songs w of None \<Rightarrow> [] | Some xs \<Rightarrow> xs)"

definition settings_of :: "world \<Rightarrow> DownloadSettings" where
  "settings_of w = (case download_settings w of None \<Rightarrow> DEFAULT_SETTINGS | Some s \<Rightarrow> s)"

definition usage_of :: "world \<Rightarrow> int" where
  "usage_of w = foldl (\<lambda>total song. total + totalSize song) 0 (manifest_of w)"

definition has_entry :: "string \<Rightarrow> world \<Rightarrow> bool" where
  "has_entry sid w = list_ex (\<lambda>song. d_id song = sid) (manifest_of w)"

definition throws :: "outcome \<Rightarrow> bool" where
  "throws out = (case out of Throws m \<Rightarrow> True | _ \<Rightarrow> False)"

definition outcome_at :: "world \<Rightarrow> nat \<Rightarrow> outcome" where
  "outcome_at w k = (if k < length (schedule w) then schedule w ! k else Normal)"

text \<open>The world once the outcomes of its next \<open>n\<close> calls of collaborators are consumed.\<close>

definition past :: "nat \<Rightarrow> world \<Rightarrow> world" where
  "past n w = w\<lparr>schedule := drop n (schedule w)\<rparr>"


definition valid_song :: "DownloadableSong \<Rightarrow> bool" where
  "valid_song s = (\<not> falsy_str (s_id s) \<and> \<not> falsy_str (s_title s))"

text \<open>The size invariant of a manifest entry.\<close>

definition artifact_size :: "Artifact option \<Rightarrow> int" where
  "artifact_size a = (case a of None \<Rightarrow> 0 | Some f \<Rightarrow> a_size f)"

definition size_consistent :: "DownloadedSong \<Rightarrow> bool" where
  "size_consistent d =
     (totalSize d = artifact_size (d_lyrics d) + artifact_size (d_audio d)
                    + artifact_size (d_notation d))"

definition manifest_consistent :: "world \<Rightarrow> bool" where
  "manifest_consistent w = list_all size_consistent (manifest_of w)"

text \<open>The local files a manifest entry refers to.\<close>

definition artifact_uri :: "Artifact option \<Rightarrow> string list" where
  "artifact_uri a = (case a of None \<Rightarrow> [] | Some f \<Rightarrow> [localUri f])"

definition artifact_uris :: "DownloadedSong \<Rightarrow> string list" where
  "artifact_uris d = artifact_uri (d_lyrics d) @ artifact_uri (d_audio d) @ artifact_uri (d_notation d)"

text \<open>The three paths \<open>downloadSong\<close> can write to for a song.\<close>

definition artifact_paths :: "env \<Rightarrow> DownloadableSong \<Rightarrow> string list" where
  "artifact_paths e s =
     [lyrics_path e (text_of (s_id s)),
      audio_path e (text_of (s_id s)) (text_of (audioUrl s)),
      notation_path e (text_of (s_id s)) (text_of (notationUrl s))]"


text \<open>
  What a chain of calls changes at most: the schedule, the events, and the files at
  the paths listed.
\<close>

definition transfers_only :: "world \<Rightarrow> string list \<Rightarrow> world \<Rightarrow> bool" where
  "transfers_only w fs w' \<longleftrightarrow>
     downloaded_songs w' = downloaded_songs w \<and> download_settings w' = download_settings w \<and>
     isConnected w' = isConnected w \<and> notifications w' = notifications w \<and>
     (\<forall>p. p \<notin> set fs \<longrightarrow> files w' p = files w p)"

section \<open>Sample data\<close>

definition env0 :: env where
  "env0 =
     \<lparr>documentDirectory = ''doc/'', remote = (\<lambda>url. int (length url)),
      transport_reports = (\<lambda>url. [(1, 2), (2, 2)]), partial_bytes = (\<lambda>url. None),
      reports_before_failure = (\<lambda>url. []), now = ''2024-05-01T10:00:00.000Z'',
      Notifications = True\<rparr>"

text \<open>The same platform when a failed transfer leaves three bytes and has made one report.\<close>

definition env1 :: env where
  "env1 = env0\<lparr>partial_bytes := (\<lambda>url. Some 3), reports_before_failure := (\<lambda>url. [(1, 2)])\<rparr>"

definition songA :: DownloadableSong where
  "songA =
     \<lparr>s_id = Some ''A'', s_number = 1, s_title = Some ''Hymn A'',
      lyricsUrl = Some ''h/a.txt'', audioUrl = None, notationUrl = None,
      s_size = Some \<lparr>sz_lyrics = Some 100, sz_audio = None, sz_notation = None\<rparr>\<rparr>"

definition songB :: DownloadableSong where
  "songB =
     \<lparr>s_id = Some ''B'', s_number = 2, s_title = Some ''Hymn B'',
      lyricsUrl = Some ''h/b.txt'', audioUrl = None, notationUrl = None,
      s_size = Some \<lparr>sz_lyrics = Some 950, sz_audio = None, sz_notation = None\<rparr>\<rparr>"

definition songC :: DownloadableSong where
  "songC =
     \<lparr>s_id = Some ''C'', s_number = 3, s_title = Some ''Hymn C'',
      lyricsUrl = Some ''h/c.txt'', audioUrl = Some ''h/c.mp3'', notationUrl = None,
      s_size = Some \<lparr>sz_lyrics = Some 100, sz_audio = Some 300, sz_notation = None\<rparr>\<rparr>"

definition songD :: DownloadableSong where
  "songD =
     \<lparr>s_id = Some ''D'', s_number = 4, s_title = Some ''Hymn D'',
      lyricsUrl = None, audioUrl = Some ''h/d.mp3'', notationUrl = None, s_size = None\<rparr>"

definition lyrics_only :: DownloadOptions where
  "lyrics_only = \<lparr>includeAudio = None, includeNotation = None, showNotification = None\<rparr>"

definition with_audio :: DownloadOptions where
  "with_audio = \<lparr>includeAudio = Some True, includeNotation = None, showNotification = None\<rparr>"

definition entryA :: DownloadedSong where
  "entryA =
     \<lparr>d_id = ''A'', d_number = 1, d_title = ''Hymn A'', downloadDate = ''2024-04-30T09:00:00.000Z'',
      d_lyrics = Some \<lparr>localUri = ''doc/downloads/lyrics/A_lyrics.txt'', a_size = 100\<rparr>,
      d_audio = None, d_notation = None, totalSize = 100\<rparr>"

definition empty_world :: world where
  "empty_world =
     \<lparr>downloaded_songs = None, download_settings = None, files = (\<lambda>p. None),
      isConnected = True, events = [], notifications = [], schedule = []\<rparr>"

text \<open>
  Song C with audio in a world where the seventh call of a collaborator, the audio
  transfer, throws; \<open>world_c_checked\<close> is that world after the preconditions and
  \<open>world_c_aborted\<close> after the failed transfer. In \<open>world_c_stuck\<close> the eighth call,
  the deletion of the lyrics file, throws as well.
\<close>

definition world_c :: world where
  "world_c =
     empty_world\<lparr>schedule := [Normal, Normal, Normal, Normal, Normal, Normal, Throws ''boom'']\<rparr>"




text \<open>A world whose manifest holds song A with its lyrics file.\<close>

definition world_a :: world where
  "world_a =
     empty_world\<lparr>downloaded_songs := Some [entryA],
                 files := (\<lambda>p. None)(''doc/downloads/lyrics/A_lyrics.txt'' \<mapsto> 100)\<rparr>"

text \<open>The same world when the second call of a collaborator throws.\<close>

definition world_a_locked :: world where
  "world_a_locked = world_a\<lparr>schedule := [Normal, Throws ''EACCES'']\<rparr>"

text \<open>
  The world of song A with a quota of 1000 bytes, connected and offline; and the world
  of song A without settings when it is offline.
\<close>

definition world_a1000 :: world where
  "world_a1000 = world_a\<lparr>download_settings := Some (DEFAULT_SETTINGS\<lparr>maxStorageSize := Some 1000\<rparr>)\<rparr>"

definition world_a1000_offline :: world where
  "world_a1000_offline = world_a1000\<lparr>isConnected := False\<rparr>"

definition world_a_offline :: world where
  "world_a_offline = world_a\<lparr>isConnected := False\<rparr>"

text \<open>The world of song A when the sixth call of a collaborator throws.\<close>

definition world_a_full :: world where
  "world_a_full = world_a\<lparr>schedule := [Normal, Normal, Normal, Normal, Normal, Throws ''full'']\<rparr>"

text \<open>Song A without a title, and a song that claims the id of song A and 950 bytes of lyrics.\<close>

definition song_untitled :: DownloadableSong where
  "song_untitled = songA\<lparr>s_title := None\<rparr>"

definition songA_big :: DownloadableSong where
  "songA_big = songB\<lparr>s_id := Some ''A''\<rparr>"

text \<open>A world whose stored settings have the quota only.\<close>

definition world_partial :: world where
  "world_partial =
     empty_world\<lparr>download_settings :=
       Some \<lparr>maxStorageSize = Some 1000, autoDownloadOnWifi = None, downloadAudioByDefault = None,
             downloadNotationByDefault = None, notifyOnComplete = None\<rparr>\<rparr>"

section \<open>Lemmas about the model\<close>

lemmas model_defs =
  next_outcome_def getItem_DOWNLOADED_SONGS_def setItem_DOWNLOADED_SONGS_def
  getItem_DOWNLOAD_SETTINGS_def setItem_DOWNLOAD_SETTINGS_def getNetworkStateAsync_def
  downloadAsync_def getInfoAsync_def deleteAsync_def scheduleNotificationAsync_def
  getDownloadedSongs_def isSongDownloaded_def getDownloadedSong_def
  getCurrentStorageUsage_def advisory_def truthy_num_def num_of_def calculateTotalSize_def
  exceeds_def BASE_DIRECTORY_def LYRICS_DIRECTORY_def AUDIO_DIRECTORY_def NOTATION_DIRECTORY_def
  split_pop_def extension_or_def falsy_str_def text_of_def wanted_def report_def measured_def
  leave_partial_def lyrics_path_def audio_path_def notation_path_def
  download_lyrics_def on_transport_progress_def resumable_downloadAsync_def download_audio_def
  download_notation_def transfer_artifacts_def save_download_def notify_complete_def
  new_download_def started_def completed_def failed_def acquire_def preconditions_def
  downloadSong_try_def downloadSong_def delete_artifact_def delete_files_def deleteSong_def
  clearAllDownloads_def DEFAULT_SETTINGS_def Let_def

lemmas sample_defs = env0_def env1_def songA_def songB_def songC_def songD_def lyrics_only_def
  with_audio_def entryA_def empty_world_def

subsection \<open>Calls that do not throw\<close>

lemma next_outcome_quiet: "schedule w = [] \<Longrightarrow> next_outcome w = (Normal, w)"
  by (simp add: next_outcome_def)

lemma getItem_DOWNLOADED_SONGS_quiet:
  "schedule w = [] \<Longrightarrow> getItem_DOWNLOADED_SONGS w = (Inr (downloaded_songs w), w)"
  by (simp add: getItem_DOWNLOADED_SONGS_def next_outcome_quiet)

lemma setItem_DOWNLOADED_SONGS_quiet:
  "schedule w = [] \<Longrightarrow> setItem_DOWNLOADED_SONGS xs w = (Inr (), w\<lparr>downloaded_songs := Some xs\<rparr>)"
  by (simp add: setItem_DOWNLOADED_SONGS_def next_outcome_quiet)

lemma getItem_DOWNLOAD_SETTINGS_quiet:
  "schedule w = [] \<Longrightarrow> getItem_DOWNLOAD_SETTINGS w = (Inr (download_settings w), w)"
  by (simp add: getItem_DOWNLOAD_SETTINGS_def next_outcome_quiet)

lemma getNetworkStateAsync_quiet:
  "schedule w = [] \<Longrightarrow> getNetworkStateAsync w = (Inr (isConnected w), w)"
  by (simp add: getNetworkStateAsync_def next_outcome_quiet)

lemma downloadAsync_quiet:
  "schedule w = [] \<Longrightarrow>
   downloadAsync e url path w = (Inr (), w\<lparr>files := (files w)(path \<mapsto> remote e url)\<rparr>)"
  by (simp add: downloadAsync_def next_outcome_quiet)

lemma getInfoAsync_quiet: "schedule w = [] \<Longrightarrow> getInfoAsync path w = (Inr (files w path), w)"
  by (simp add: getInfoAsync_def next_outcome_quiet)


lemma getDownloadedSongs_quiet: "schedule w = [] \<Longrightarrow> getDownloadedSongs w = (manifest_of w, w)"
  by (simp add: getDownloadedSongs_def getItem_DOWNLOADED_SONGS_quiet manifest_of_def
      split: option.splits)

lemma isSongDownloaded_quiet: "schedule w = [] \<Longrightarrow> isSongDownloaded sid w = (has_entry sid w, w)"
  by (simp add: isSongDownloaded_def getDownloadedSongs_quiet has_entry_def)

lemma getDownloadedSong_quiet:
  "schedule w = [] \<Longrightarrow>
   getDownloadedSong sid w = (find (\<lambda>song. d_id song = sid) (manifest_of w), w)"
  by (simp add: getDownloadedSong_def getDownloadedSongs_quiet)

lemma getCurrentStorageUsage_quiet:
  "schedule w = [] \<Longrightarrow> getCurrentStorageUsage w = (usage_of w, w)"
  by (simp add: getCurrentStorageUsage_def getDownloadedSongs_quiet usage_of_def)

lemma preconditions_invalid:
  "\<not> valid_song s \<Longrightarrow> preconditions s opts w = (Inl ''Invalid song data'', w)"
  by (auto simp add: preconditions_def valid_song_def)

lemma preconditions_quiet:
  assumes "schedule w = []" and "valid_song s"
  shows "preconditions s opts w =
     (if \<not> isConnected w then (Inl ''No internet connection'', w)
      else if has_entry (text_of (s_id s)) w
        then (Inr (CacheHit (find (\<lambda>song. d_id song = text_of (s_id s)) (manifest_of w))), w)
      else if exceeds (usage_of w + calculateTotalSize s opts) (maxStorageSize (settings_of w))
        then (Inl ''Not enough storage space'', w)
      else (Inr Proceed, w))"
  using assms
  by (simp add: preconditions_def valid_song_def getNetworkStateAsync_quiet
      isSongDownloaded_quiet getDownloadedSong_quiet getItem_DOWNLOAD_SETTINGS_quiet
      getCurrentStorageUsage_quiet settings_of_def)

subsection \<open>What a call leaves alone\<close>

lemma next_outcome_frame: "next_outcome w = (out, w') \<Longrightarrow> \<exists>sch. w' = w\<lparr>schedule := sch\<rparr>"
  by (auto simp: next_outcome_def split: list.splits intro: exI[of _ "schedule w"])

lemma getItem_DOWNLOADED_SONGS_frame:
  "getItem_DOWNLOADED_SONGS w = (r, w') \<Longrightarrow> \<exists>sch. w' = w\<lparr>schedule := sch\<rparr>"
  by (auto simp: getItem_DOWNLOADED_SONGS_def split: prod.splits outcome.splits
      dest: next_outcome_frame)

lemma getItem_DOWNLOAD_SETTINGS_frame:
  "getItem_DOWNLOAD_SETTINGS w = (r, w') \<Longrightarrow> \<exists>sch. w' = w\<lparr>schedule := sch\<rparr>"
  by (auto simp: getItem_DOWNLOAD_SETTINGS_def split: prod.splits outcome.splits
      dest: next_outcome_frame)

lemma getNetworkStateAsync_frame:
  "getNetworkStateAsync w = (r, w') \<Longrightarrow> \<exists>sch. w' = w\<lparr>schedule := sch\<rparr>"
  by (auto simp: getNetworkStateAsync_def split: prod.splits outcome.splits
      dest: next_outcome_frame)

lemma getInfoAsync_frame:
  "getInfoAsync path w = (r, w') \<Longrightarrow> \<exists>sch. w' = w\<lparr>schedule := sch\<rparr>"
  by (auto simp: getInfoAsync_def split: prod.splits outcome.splits dest: next_outcome_frame)

lemma getDownloadedSongs_frame:
  "getDownloadedSongs w = (xs, w') \<Longrightarrow> \<exists>sch. w' = w\<lparr>schedule := sch\<rparr>"
  by (auto simp: getDownloadedSongs_def split: prod.splits sum.splits option.splits
      dest: getItem_DOWNLOADED_SONGS_frame)

lemma isSongDownloaded_frame:
  "isSongDownloaded sid w = (b, w') \<Longrightarrow> \<exists>sch. w' = w\<lparr>schedule := sch\<rparr>"
  by (auto simp: isSongDownloaded_def split: prod.splits dest: getDownloadedSongs_frame)

lemma getDownloadedSong_frame:
  "getDownloadedSong sid w = (r, w') \<Longrightarrow> \<exists>sch. w' = w\<lparr>schedule := sch\<rparr>"
  by (auto simp: getDownloadedSong_def split: prod.splits dest: getDownloadedSongs_frame)

lemma getCurrentStorageUsage_frame:
  "getCurrentStorageUsage w = (n, w') \<Longrightarrow> \<exists>sch. w' = w\<lparr>schedule := sch\<rparr>"
  by (auto simp: getCurrentStorageUsage_def split: prod.splits dest: getDownloadedSongs_frame)

lemma preconditions_frame:
  "preconditions s opts w = (r, w') \<Longrightarrow> \<exists>sch. w' = w\<lparr>schedule := sch\<rparr>"
  by (auto simp: preconditions_def Let_def
      split: if_splits prod.splits sum.splits
      dest!: getNetworkStateAsync_frame isSongDownloaded_frame getDownloadedSong_frame
        getItem_DOWNLOAD_SETTINGS_frame getCurrentStorageUsage_frame
      intro: exI[of _ "schedule w"])

lemma transfers_only_refl: "transfers_only w fs w"
  by (simp add: transfers_only_def)

lemma transfers_only_trans:
  "transfers_only w fs1 w1 \<Longrightarrow> transfers_only w1 fs2 w2 \<Longrightarrow> set fs1 \<subseteq> set fs2 \<Longrightarrow>
   transfers_only w fs2 w2"
  by (auto simp: transfers_only_def)

lemma transfers_only_mono:
  "transfers_only w fs w' \<Longrightarrow> set fs \<subseteq> set fs' \<Longrightarrow> transfers_only w fs' w'"
  by (auto simp: transfers_only_def)

lemma reads_transfers_only: "w' = w\<lparr>schedule := sch\<rparr> \<Longrightarrow> transfers_only w fs w'"
  by (simp add: transfers_only_def)

lemma downloadAsync_frame:
  "downloadAsync e url path w = (r, w') \<Longrightarrow> transfers_only w [path] w'"
  by (auto simp: downloadAsync_def leave_partial_def transfers_only_def
      split: prod.splits outcome.splits option.splits dest!: next_outcome_frame)

lemma deleteAsync_frame:
  "deleteAsync path w = (r, w') \<Longrightarrow>
   transfers_only w [path] w' \<and> events w' = events w \<and> (\<forall>p. files w p = None \<longrightarrow> files w' p = None)"
  by (auto simp: deleteAsync_def transfers_only_def split: prod.splits outcome.splits
      dest!: next_outcome_frame)

lemma transport_progress_frame:
  "transfers_only w [] (foldl (\<lambda>v r. on_transport_progress cb sid r v) w reports) \<and>
   files (foldl (\<lambda>v r. on_transport_progress cb sid r v) w reports) = files w \<and>
   schedule (foldl (\<lambda>v r. on_transport_progress cb sid r v) w reports) = schedule w"
proof (induction reports arbitrary: w)
  case Nil
  show ?case by (simp add: transfers_only_def)
next
  case (Cons r reports)
  have step: "transfers_only w [] (on_transport_progress cb sid r w)
     \<and> files (on_transport_progress cb sid r w) = files w
     \<and> schedule (on_transport_progress cb sid r w) = schedule w"
    by (cases r) (simp add: on_transport_progress_def report_def transfers_only_def)
  from Cons.IH[of "on_transport_progress cb sid r w"] step show ?case
    by (auto simp: transfers_only_def)
qed

lemma resumable_downloadAsync_frame:
  "resumable_downloadAsync e cb sid url path w = (r, w') \<Longrightarrow> transfers_only w [path] w'"
  using transport_progress_frame[of "snd (next_outcome w)" cb sid "transport_reports e url"]
    transport_progress_frame[of "snd (next_outcome w)" cb sid "reports_before_failure e url"]
  by (auto simp: resumable_downloadAsync_def leave_partial_def transfers_only_def
      split: prod.splits outcome.splits option.splits dest!: next_outcome_frame)

lemma download_lyrics_frame:
  "download_lyrics e i url ds fs w = (r, fs', w') \<Longrightarrow>
   transfers_only w [lyrics_path e i] w' \<and> set fs' \<subseteq> insert (lyrics_path e i) (set fs)"
  by (auto simp: download_lyrics_def Let_def transfers_only_def
      split: prod.splits sum.splits
      dest!: downloadAsync_frame getInfoAsync_frame)

lemma download_notation_frame:
  "download_notation e i url ds fs w = (r, fs', w') \<Longrightarrow>
   transfers_only w [notation_path e i url] w' \<and>
   set fs' \<subseteq> insert (notation_path e i url) (set fs)"
  by (auto simp: download_notation_def Let_def transfers_only_def
      split: prod.splits sum.splits
      dest!: downloadAsync_frame getInfoAsync_frame)

lemma download_audio_frame:
  assumes "download_audio e cb sid i url ds fs w = (r, fs', w')"
  shows "transfers_only w [audio_path e i url] w' \<and>
         set fs' \<subseteq> insert (audio_path e i url) (set fs)"
proof -
  let ?p = "audio_path e i url"
  obtain r1 w1 where d: "resumable_downloadAsync e cb sid url ?p w = (r1, w1)"
    by (cases "resumable_downloadAsync e cb sid url ?p w")
  have t: "transfers_only w [?p] w1" using d by (rule resumable_downloadAsync_frame)
  show ?thesis
  proof (cases "r1 = Inr True")
    case True
    obtain r2 w2 where g: "getInfoAsync ?p w1 = (r2, w2)" by (cases "getInfoAsync ?p w1")
    from assms d g True have "fs' = fs @ [?p]" and "w' = w2"
      by (auto simp: download_audio_def Let_def split: sum.splits)
    moreover have "\<exists>sch. w2 = w1\<lparr>schedule := sch\<rparr>" using g by (rule getInfoAsync_frame)
    ultimately show ?thesis using t by (auto simp: transfers_only_def)
  next
    case False
    with assms d have "fs' = fs" and "w' = w1"
      by (auto simp: download_audio_def Let_def split: sum.splits bool.splits)
    with t show ?thesis by auto
  qed
qed

lemma wanted_url: "wanted requested u = Some url \<Longrightarrow> url = text_of u"
  by (auto simp: wanted_def text_of_def split: if_splits)

lemma transfer_artifacts_frame:
  assumes "transfer_artifacts e s opts cb ds w = (r, fs, w')"
  shows "transfers_only w (artifact_paths e s) w' \<and> set fs \<subseteq> set (artifact_paths e s)"
proof -
  let ?i = "text_of (s_id s)" and ?ps = "artifact_paths e s"
  obtain r1 fs1 w1 where a:
    "(case wanted True (lyricsUrl s) of None \<Rightarrow> (Inr ds, [], w)
      | Some url \<Rightarrow> download_lyrics e ?i url ds [] w) = (r1, fs1, w1)"
    by (metis prod_cases3)
  have t1: "transfers_only w ?ps w1 \<and> set fs1 \<subseteq> set ?ps"
  proof (cases "wanted True (lyricsUrl s)")
    case None
    with a show ?thesis by (simp add: transfers_only_refl)
  next
    case (Some url)
    with a have "download_lyrics e ?i url ds [] w = (r1, fs1, w1)" by simp
    from download_lyrics_frame[OF this] show ?thesis
      by (auto simp: artifact_paths_def intro: transfers_only_mono)
  qed
  show ?thesis
  proof (cases r1)
    case (Inl m)
    with assms a have "fs = fs1" "w' = w1" by (auto simp: transfer_artifacts_def Let_def)
    with t1 show ?thesis by simp
  next
    case (Inr ds1)
    obtain r2 fs2 w2 where b:
      "(case wanted (includeAudio opts = Some True) (audioUrl s) of None \<Rightarrow> (Inr ds1, fs1, w1)
        | Some url \<Rightarrow> download_audio e cb (s_id s) ?i url ds1 fs1 w1) = (r2, fs2, w2)"
      by (metis prod_cases3)
    have t2: "transfers_only w1 ?ps w2 \<and> set fs2 \<subseteq> set ?ps"
    proof (cases "wanted (includeAudio opts = Some True) (audioUrl s)")
      case None
      with b t1 show ?thesis by (simp add: transfers_only_refl)
    next
      case (Some url)
      with b have "download_audio e cb (s_id s) ?i url ds1 fs1 w1 = (r2, fs2, w2)" by simp
      from download_audio_frame[OF this] wanted_url[OF Some] t1 show ?thesis
        by (auto simp: artifact_paths_def intro: transfers_only_mono)
    qed
    with t1 have t12: "transfers_only w ?ps w2" by (blast intro: transfers_only_trans)
    show ?thesis
    proof (cases r2)
      case (Inl m)
      with assms a b Inr have "fs = fs2" "w' = w2" by (auto simp: transfer_artifacts_def Let_def)
      with t12 t2 show ?thesis by simp
    next
      case (Inr ds2)
      with assms a b \<open>r1 = Inr ds1\<close> have c:
        "(case wanted (includeNotation opts = Some True) (notationUrl s) of
            None \<Rightarrow> (Inr ds2, fs2, w2)
          | Some url \<Rightarrow> download_notation e ?i url ds2 fs2 w2) = (r, fs, w')"
        by (auto simp: transfer_artifacts_def Let_def)
      have t3: "transfers_only w2 ?ps w' \<and> set fs \<subseteq> set ?ps"
      proof (cases "wanted (includeNotation opts = Some True) (notationUrl s)")
        case None
        with c t2 show ?thesis by (auto simp: transfers_only_refl)
      next
        case (Some url)
        with c have "download_notation e ?i url ds2 fs2 w2 = (r, fs, w')" by simp
        from download_notation_frame[OF this] wanted_url[OF Some] t2 show ?thesis
          by (auto simp: artifact_paths_def intro: transfers_only_mono)
      qed
      with t12 show ?thesis by (blast intro: transfers_only_trans)
    qed
  qed
qed


lemma next_outcome_head: "fst (next_outcome w) = outcome_at w 0"
  by (cases "schedule w") (simp_all add: next_outcome_def outcome_at_def)



lemma cleanup_frame:
  "transfers_only w fs (cleanup fs w) \<and> events (cleanup fs w) = events w \<and>
   (\<forall>p. files w p = None \<longrightarrow> files (cleanup fs w) p = None)"
proof (induction fs arbitrary: w)
  case Nil
  show ?case by (simp add: transfers_only_refl)
next
  case (Cons a fs)
  obtain r w1 where d: "deleteAsync a w = (r, w1)" by (cases "deleteAsync a w")
  from deleteAsync_frame[OF d] Cons.IH[of w1] d show ?case
    by (auto simp: transfers_only_def)
qed



subsection \<open>The record under construction\<close>

lemma download_lyrics_record:
  "download_lyrics e i url ds fs w = (Inr ds', fs', w') \<Longrightarrow>
   \<exists>p n. ds' = ds\<lparr>d_lyrics := Some \<lparr>localUri = p, a_size = n\<rparr>, totalSize := totalSize ds + n\<rparr>"
  by (auto simp: download_lyrics_def Let_def split: prod.splits sum.splits)

lemma download_audio_record:
  "download_audio e cb sid i url ds fs w = (Inr ds', fs', w') \<Longrightarrow>
   \<exists>p n. ds' = ds\<lparr>d_audio := Some \<lparr>localUri = p, a_size = n\<rparr>, totalSize := totalSize ds + n\<rparr>"
  by (auto simp: download_audio_def Let_def split: prod.splits sum.splits bool.splits)

lemma download_notation_record:
  "download_notation e i url ds fs w = (Inr ds', fs', w') \<Longrightarrow>
   \<exists>p n. ds' = ds\<lparr>d_notation := Some \<lparr>localUri = p, a_size = n\<rparr>, totalSize := totalSize ds + n\<rparr>"
  by (auto simp: download_notation_def Let_def split: prod.splits sum.splits)

lemma transfer_artifacts_record:
  assumes "transfer_artifacts e s opts cb (new_download e s) w = (Inr ds, fs, w')"
  shows "size_consistent ds \<and> d_id ds = text_of (s_id s)"
proof -
  let ?i = "text_of (s_id s)" and ?n = "new_download e s"
  obtain r1 fs1 w1 where a:
    "(case wanted True (lyricsUrl s) of None \<Rightarrow> (Inr ?n, [], w)
      | Some url \<Rightarrow> download_lyrics e ?i url ?n [] w) = (r1, fs1, w1)"
    by (metis prod_cases3)
  from assms a obtain ds1 where r1: "r1 = Inr ds1"
    by (cases r1) (auto simp: transfer_artifacts_def Let_def)
  have p1: "size_consistent ds1 \<and> d_audio ds1 = None \<and> d_notation ds1 = None \<and> d_id ds1 = ?i"
    using a r1
    by (auto split: option.splits dest!: download_lyrics_record
        simp: new_download_def size_consistent_def artifact_size_def)
  obtain r2 fs2 w2 where b:
    "(case wanted (includeAudio opts = Some True) (audioUrl s) of None \<Rightarrow> (Inr ds1, fs1, w1)
      | Some url \<Rightarrow> download_audio e cb (s_id s) ?i url ds1 fs1 w1) = (r2, fs2, w2)"
    by (metis prod_cases3)
  from assms a r1 b obtain ds2 where r2: "r2 = Inr ds2"
    by (cases r2) (auto simp: transfer_artifacts_def Let_def)
  have p2: "size_consistent ds2 \<and> d_notation ds2 = None \<and> d_id ds2 = ?i"
    using b r2 p1
    by (auto split: option.splits dest!: download_audio_record
        simp: size_consistent_def artifact_size_def)
  from assms a b r1 r2 have c:
    "(case wanted (includeNotation opts = Some True) (notationUrl s) of
        None \<Rightarrow> (Inr ds2, fs2, w2)
      | Some url \<Rightarrow> download_notation e ?i url ds2 fs2 w2) = (Inr ds, fs, w')"
    by (auto simp: transfer_artifacts_def Let_def)
  show ?thesis
    using c p2
    by (auto split: option.splits dest!: download_notation_record
        simp: size_consistent_def artifact_size_def)
qed

subsection \<open>Writes of the manifest\<close>

lemma getDownloadedSongs_result:
  "getDownloadedSongs w = (xs, w') \<Longrightarrow> xs = manifest_of w \<or> xs = []"
  by (auto simp: getDownloadedSongs_def getItem_DOWNLOADED_SONGS_def manifest_of_def
      split: prod.splits sum.splits option.splits outcome.splits dest!: next_outcome_frame)

lemma setItem_DOWNLOADED_SONGS_result:
  "setItem_DOWNLOADED_SONGS xs w = (r, w') \<Longrightarrow>
   (r = Inr () \<and> downloaded_songs w' = Some xs) \<or>
   ((\<exists>m. r = Inl m) \<and> downloaded_songs w' = downloaded_songs w)"
  by (auto simp: setItem_DOWNLOADED_SONGS_def split: prod.splits outcome.splits
      dest!: next_outcome_frame)

lemma setItem_DOWNLOADED_SONGS_frame:
  "setItem_DOWNLOADED_SONGS xs w = (r, w') \<Longrightarrow>
   files w' = files w \<and> events w' = events w \<and> download_settings w' = download_settings w
   \<and> isConnected w' = isConnected w \<and> notifications w' = notifications w"
  by (auto simp: setItem_DOWNLOADED_SONGS_def split: prod.splits outcome.splits
      dest!: next_outcome_frame)

lemma manifest_consistent_write:
  "list_all size_consistent xs \<Longrightarrow> downloaded_songs w' = Some xs \<Longrightarrow> manifest_consistent w'"
  by (simp add: manifest_consistent_def manifest_of_def)

lemma manifest_consistent_same:
  "manifest_consistent w \<Longrightarrow> downloaded_songs w' = downloaded_songs w \<Longrightarrow> manifest_consistent w'"
  by (simp add: manifest_consistent_def manifest_of_def)

lemma save_download_consistent:
  assumes "save_download ds w = (r, w')" and "size_consistent ds" and "manifest_consistent w"
  shows "manifest_consistent w'"
proof -
  obtain xs w1 where g: "getDownloadedSongs w = (xs, w1)" by (cases "getDownloadedSongs w")
  with assms(1) have s: "setItem_DOWNLOADED_SONGS (xs @ [ds]) w1 = (r, w')"
    by (simp add: save_download_def)
  from getDownloadedSongs_frame[OF g] obtain sch where w1: "w1 = w\<lparr>schedule := sch\<rparr>" by blast
  from getDownloadedSongs_result[OF g] assms(2,3) have "list_all size_consistent (xs @ [ds])"
    by (auto simp: manifest_consistent_def)
  with setItem_DOWNLOADED_SONGS_result[OF s] w1 assms(3) show ?thesis
    by (auto simp: manifest_consistent_def manifest_of_def)
qed

lemma notify_complete_frame:
  "downloaded_songs (notify_complete e opts t w) = downloaded_songs w \<and>
   files (notify_complete e opts t w) = files w \<and> events (notify_complete e opts t w) = events w"
  by (auto simp: notify_complete_def scheduleNotificationAsync_def
      split: prod.splits outcome.splits dest!: next_outcome_frame)

lemma acquire_consistent:
  assumes "acquire e s opts cb w = (r, fs, w')" and "manifest_consistent w"
  shows "manifest_consistent w'"
proof -
  obtain r1 fs1 w1 where t:
    "transfer_artifacts e s opts cb (new_download e s) (report cb (started s) w) = (r1, fs1, w1)"
    by (metis prod_cases3)
  have m1: "manifest_consistent w1"
    using transfer_artifacts_frame[OF t] assms(2)
    by (auto simp: transfers_only_def report_def intro: manifest_consistent_same split: if_splits)
  show ?thesis
  proof (cases r1)
    case (Inl m)
    with assms(1) t have "w' = w1" by (simp add: acquire_def)
    with m1 show ?thesis by simp
  next
    case (Inr ds)
    obtain r2 w2 where sv: "save_download ds w1 = (r2, w2)" by (cases "save_download ds w1")
    have "size_consistent ds" using t Inr transfer_artifacts_record by blast
    with sv m1 have m2: "manifest_consistent w2" by (blast intro: save_download_consistent)
    show ?thesis
    proof (cases r2)
      case (Inl m)
      with assms(1) t sv \<open>r1 = Inr ds\<close> have "w' = w2" by (simp add: acquire_def)
      with m2 show ?thesis by simp
    next
      case (Inr u)
      with assms(1) t sv \<open>r1 = Inr ds\<close>
      have "w' = report cb (completed s) (notify_complete e opts (text_of (s_title s)) w2)"
        by (simp add: acquire_def)
      with m2 show ?thesis
        using notify_complete_frame[of e opts "text_of (s_title s)" w2]
        by (auto simp: report_def intro: manifest_consistent_same)
    qed
  qed
qed

lemma downloadSong_try_consistent:
  assumes "downloadSong_try e song opts cb w = (r, fs, w')" and "manifest_consistent w"
  shows "manifest_consistent w'"
proof (cases song)
  case None
  with assms show ?thesis by (simp add: downloadSong_try_def)
next
  case (Some s)
  obtain r0 w0 where p: "preconditions s opts w = (r0, w0)" by (cases "preconditions s opts w")
  from preconditions_frame[OF p] assms(2) have m0: "manifest_consistent w0"
    by (auto intro: manifest_consistent_same)
  show ?thesis
  proof (cases r0)
    case (Inl m)
    with assms(1) Some p m0 show ?thesis by (simp add: downloadSong_try_def)
  next
    case (Inr c)
    show ?thesis
    proof (cases c)
      case (CacheHit x)
      with assms(1) Some p m0 Inr show ?thesis by (simp add: downloadSong_try_def)
    next
      case Proceed
      with assms(1) Some p Inr have "acquire e s opts cb w0 = (r, fs, w')"
        by (simp add: downloadSong_try_def)
      then show ?thesis using m0 by (rule acquire_consistent)
    qed
  qed
qed

lemma downloadSong_consistent:
  assumes "manifest_consistent w"
  shows "manifest_consistent (snd (downloadSong e song opts cb w))"
proof -
  obtain r fs w1 where t: "downloadSong_try e song opts cb w = (r, fs, w1)" by (metis prod_cases3)
  have m1: "manifest_consistent w1" using t assms by (rule downloadSong_try_consistent)
  have "manifest_consistent (cleanup fs w1)"
    using cleanup_frame[of w1 fs] m1 by (auto simp: transfers_only_def intro: manifest_consistent_same)
  then have "manifest_consistent (report cb p (cleanup fs w1))" for p
    by (auto simp: report_def intro: manifest_consistent_same)
  with m1 \<open>manifest_consistent (cleanup fs w1)\<close> t show ?thesis
    by (auto simp: downloadSong_def Let_def split: sum.splits option.splits)
qed

subsection \<open>Deleting\<close>

lemma delete_artifact_frame:
  "delete_artifact a w = (r, w') \<Longrightarrow>
   transfers_only w (artifact_uri a) w' \<and> events w' = events w \<and>
   (\<forall>p. files w p = None \<longrightarrow> files w' p = None)"
  by (cases a) (auto simp: delete_artifact_def artifact_uri_def transfers_only_def
      dest!: deleteAsync_frame)

lemma delete_files_frame:
  assumes "delete_files d w = (r, w')"
  shows "transfers_only w (artifact_uris d) w' \<and> events w' = events w"
proof -
  obtain r1 w1 where a: "delete_artifact (d_lyrics d) w = (r1, w1)"
    by (cases "delete_artifact (d_lyrics d) w")
  obtain r2 w2 where b: "delete_artifact (d_audio d) w1 = (r2, w2)"
    by (cases "delete_artifact (d_audio d) w1")
  obtain r3 w3 where c: "delete_artifact (d_notation d) w2 = (r3, w3)"
    by (cases "delete_artifact (d_notation d) w2")
  from assms a b c have "w' = w1 \<or> w' = w2 \<or> w' = w3"
    by (auto simp: delete_files_def split: sum.splits)
  with delete_artifact_frame[OF a] delete_artifact_frame[OF b] delete_artifact_frame[OF c]
  show ?thesis by (auto simp: transfers_only_def artifact_uris_def)
qed

lemma deleteSong_manifest:
  assumes "deleteSong sid w = (b, w')"
  shows "(\<not> b \<and> downloaded_songs w' = downloaded_songs w) \<or>
         (b \<and> (downloaded_songs w' = Some (filter (\<lambda>song. d_id song \<noteq> sid) (manifest_of w))
               \<or> downloaded_songs w' = Some []))"
proof -
  obtain r1 w1 where g: "getDownloadedSong sid w = (r1, w1)" by (cases "getDownloadedSong sid w")
  from getDownloadedSong_frame[OF g] obtain sch where w1: "w1 = w\<lparr>schedule := sch\<rparr>" by blast
  show ?thesis
  proof (cases r1)
    case None
    with assms g have "\<not> b" and "w' = w1" by (simp_all add: deleteSong_def)
    with w1 show ?thesis by simp
  next
    case (Some d)
    obtain r2 w2 where f: "delete_files d w1 = (r2, w2)" by (cases "delete_files d w1")
    from delete_files_frame[OF f] w1 have s2: "downloaded_songs w2 = downloaded_songs w"
      by (simp add: transfers_only_def)
    show ?thesis
    proof (cases r2)
      case (Inl m)
      with assms g Some f have "\<not> b" and "w' = w2" by (simp_all add: deleteSong_def)
      with s2 show ?thesis by simp
    next
      case (Inr u)
      obtain xs w3 where l: "getDownloadedSongs w2 = (xs, w3)" by (cases "getDownloadedSongs w2")
      from getDownloadedSongs_frame[OF l] obtain sch3 where w3: "w3 = w2\<lparr>schedule := sch3\<rparr>"
        by blast
      have xs: "xs = manifest_of w \<or> xs = []"
        using getDownloadedSongs_result[OF l] s2 by (simp add: manifest_of_def)
      obtain r4 w4 where st:
        "setItem_DOWNLOADED_SONGS (filter (\<lambda>song. d_id song \<noteq> sid) xs) w3 = (r4, w4)"
        by (cases "setItem_DOWNLOADED_SONGS (filter (\<lambda>song. d_id song \<noteq> sid) xs) w3")
      from assms g Some f Inr l st have res: "w' = w4" "b = (case r4 of Inl m \<Rightarrow> False | Inr u \<Rightarrow> True)"
        by (auto simp: deleteSong_def split: sum.splits)
      from setItem_DOWNLOADED_SONGS_result[OF st] res xs s2 w3 show ?thesis by auto
    qed
  qed
qed

lemma deleteSong_consistent:
  assumes "manifest_consistent w"
  shows "manifest_consistent (snd (deleteSong sid w))"
proof -
  have "list_all size_consistent (filter (\<lambda>song. d_id song \<noteq> sid) (manifest_of w))"
    using assms by (simp add: manifest_consistent_def list_all_iff)
  with deleteSong_manifest[of sid w "fst (deleteSong sid w)" "snd (deleteSong sid w)"] assms
  show ?thesis
    by (auto intro: manifest_consistent_same manifest_consistent_write
        simp: manifest_consistent_write[of "[]"])
qed

lemma delete_each_consistent:
  "manifest_consistent w \<Longrightarrow> manifest_consistent (delete_each xs w)"
  by (induction xs arbitrary: w) (simp_all add: deleteSong_consistent)

lemma clearAllDownloads_consistent:
  assumes "manifest_consistent w"
  shows "manifest_consistent (snd (clearAllDownloads w))"
proof -
  obtain xs w1 where l: "getDownloadedSongs w = (xs, w1)" by (cases "getDownloadedSongs w")
  from getDownloadedSongs_frame[OF l] assms have "manifest_consistent w1"
    by (auto intro: manifest_consistent_same)
  then have m: "manifest_consistent (delete_each xs w1)" by (rule delete_each_consistent)
  obtain r w2 where st: "setItem_DOWNLOADED_SONGS [] (delete_each xs w1) = (r, w2)"
    by (cases "setItem_DOWNLOADED_SONGS [] (delete_each xs w1)")
  have "manifest_consistent w2"
    using setItem_DOWNLOADED_SONGS_result[OF st] m
    by (auto simp: manifest_consistent_def manifest_of_def)
  with l st show ?thesis by (auto simp: clearAllDownloads_def split: sum.splits)
qed

subsection \<open>Calls in a world where nothing throws\<close>










lemma downloadSong_precondition_failure:
  "preconditions s opts w = (Inl m, w1) \<Longrightarrow>
   downloadSong e (Some s) opts cb w = (Inr None, report cb (failed s m) w1)"
  by (simp add: downloadSong_def downloadSong_try_def report_def)

lemma downloadSong_cache_hit:
  "preconditions s opts w = (Inr (CacheHit r), w1) \<Longrightarrow>
   downloadSong e (Some s) opts cb w = (Inr r, w1)"
  by (simp add: downloadSong_def downloadSong_try_def)

lemma downloadSong_acquired:
  "preconditions s opts w = (Inr Proceed, w1) \<Longrightarrow> acquire e s opts cb w1 = (Inr r, fs, w2) \<Longrightarrow>
   downloadSong e (Some s) opts cb w = (Inr r, w2)"
  by (simp add: downloadSong_def downloadSong_try_def)

lemma download_lyrics_quiet:
  "schedule w = [] \<Longrightarrow>
   \<exists>ds' fs' w'. download_lyrics e i url ds fs w = (Inr ds', fs', w') \<and> schedule w' = []"
  by (simp add: download_lyrics_def Let_def downloadAsync_quiet getInfoAsync_quiet)

lemma download_notation_quiet:
  "schedule w = [] \<Longrightarrow>
   \<exists>ds' fs' w'. download_notation e i url ds fs w = (Inr ds', fs', w') \<and> schedule w' = []"
  by (simp add: download_notation_def Let_def downloadAsync_quiet getInfoAsync_quiet)

lemma resumable_downloadAsync_quiet:
  "schedule w = [] \<Longrightarrow>
   \<exists>w'. resumable_downloadAsync e cb sid url path w = (Inr True, w') \<and> schedule w' = []"
  using transport_progress_frame[of w cb sid "transport_reports e url"]
  by (simp add: resumable_downloadAsync_def next_outcome_quiet)

lemma download_audio_quiet:
  assumes "schedule w = []"
  shows "\<exists>ds' fs' w'. download_audio e cb sid i url ds fs w = (Inr ds', fs', w') \<and> schedule w' = []"
proof -
  let ?p = "audio_path e i url"
  from resumable_downloadAsync_quiet[OF assms, of e cb sid url ?p] obtain w1 where
    "resumable_downloadAsync e cb sid url ?p w = (Inr True, w1)" and "schedule w1 = []" by blast
  then show ?thesis
    by (simp add: download_audio_def Let_def getInfoAsync_quiet)
qed

lemma transfer_artifacts_quiet:
  assumes "schedule w = []"
  shows "\<exists>ds' fs w'. transfer_artifacts e s opts cb ds w = (Inr ds', fs, w') \<and> schedule w' = []"
proof -
  let ?i = "text_of (s_id s)"
  have "\<exists>ds1 fs1 w1.
    (case wanted True (lyricsUrl s) of None \<Rightarrow> (Inr ds, [], w)
      | Some url \<Rightarrow> download_lyrics e ?i url ds [] w) = (Inr ds1, fs1, w1) \<and> schedule w1 = []"
  proof (cases "wanted True (lyricsUrl s)")
    case None
    with assms show ?thesis by simp
  next
    case (Some url)
    with download_lyrics_quiet[OF assms, of e ?i url ds "[]"] show ?thesis by simp
  qed
  then obtain ds1 fs1 w1 where a:
    "(case wanted True (lyricsUrl s) of None \<Rightarrow> (Inr ds, [], w)
      | Some url \<Rightarrow> download_lyrics e ?i url ds [] w) = (Inr ds1, fs1, w1)" "schedule w1 = []"
    by blast
  have "\<exists>ds2 fs2 w2.
    (case wanted (includeAudio opts = Some True) (audioUrl s) of None \<Rightarrow> (Inr ds1, fs1, w1)
      | Some url \<Rightarrow> download_audio e cb (s_id s) ?i url ds1 fs1 w1) = (Inr ds2, fs2, w2)
    \<and> schedule w2 = []"
  proof (cases "wanted (includeAudio opts = Some True) (audioUrl s)")
    case None
    with a(2) show ?thesis by simp
  next
    case (Some url)
    with download_audio_quiet[OF a(2), of e cb "s_id s" ?i url ds1 fs1] show ?thesis by simp
  qed
  then obtain ds2 fs2 w2 where b:
    "(case wanted (includeAudio opts = Some True) (audioUrl s) of None \<Rightarrow> (Inr ds1, fs1, w1)
      | Some url \<Rightarrow> download_audio e cb (s_id s) ?i url ds1 fs1 w1) = (Inr ds2, fs2, w2)"
    "schedule w2 = []"
    by blast
  have "\<exists>ds3 fs3 w3.
    (case wanted (includeNotation opts = Some True) (notationUrl s) of
        None \<Rightarrow> (Inr ds2, fs2, w2)
      | Some url \<Rightarrow> download_notation e ?i url ds2 fs2 w2) = (Inr ds3, fs3, w3)
    \<and> schedule w3 = []"
  proof (cases "wanted (includeNotation opts = Some True) (notationUrl s)")
    case None
    with b(2) show ?thesis by simp
  next
    case (Some url)
    with download_notation_quiet[OF b(2), of e ?i url ds2 fs2] show ?thesis by simp
  qed
  with a b show ?thesis by (auto simp: transfer_artifacts_def Let_def)
qed

lemma save_download_quiet:
  "schedule w = [] \<Longrightarrow>
   save_download ds w = (Inr (), w\<lparr>downloaded_songs := Some (manifest_of w @ [ds])\<rparr>)"
  by (simp add: save_download_def getDownloadedSongs_quiet setItem_DOWNLOADED_SONGS_quiet)

lemma notify_complete_quiet:
  "schedule w = [] \<Longrightarrow> schedule (notify_complete e opts t w) = [] \<and>
   isConnected (notify_complete e opts t w) = isConnected w \<and>
   download_settings (notify_complete e opts t w) = download_settings w"
  by (simp add: notify_complete_def scheduleNotificationAsync_def next_outcome_quiet)

lemma acquire_quiet:
  assumes "schedule w = []"
  shows "\<exists>d fs w'. acquire e s opts cb w = (Inr (Some d), fs, w') \<and> d_id d = text_of (s_id s) \<and>
           downloaded_songs w' = Some (manifest_of w @ [d]) \<and> schedule w' = [] \<and>
           isConnected w' = isConnected w \<and> download_settings w' = download_settings w"
proof -
  let ?w0 = "report cb (started s) w"
  have q0: "schedule ?w0 = []" using assms by (simp add: report_def)
  from transfer_artifacts_quiet[OF q0, of e s opts cb "new_download e s"] obtain d fs w1 where
    t: "transfer_artifacts e s opts cb (new_download e s) ?w0 = (Inr d, fs, w1)"
    and q1: "schedule w1 = []" by blast
  have f1: "transfers_only ?w0 (artifact_paths e s) w1"
    using transfer_artifacts_frame[OF t] by simp
  have id: "d_id d = text_of (s_id s)" using transfer_artifacts_record[OF t] by simp
  let ?w2 = "w1\<lparr>downloaded_songs := Some (manifest_of w1 @ [d])\<rparr>"
  let ?w3 = "report cb (completed s) (notify_complete e opts (text_of (s_title s)) ?w2)"
  have sv: "save_download d w1 = (Inr (), ?w2)" using q1 by (rule save_download_quiet)
  have res: "acquire e s opts cb w = (Inr (Some d), fs, ?w3)"
    using t sv by (simp add: acquire_def)
  have m1: "manifest_of w1 = manifest_of w"
    using f1 by (simp add: transfers_only_def manifest_of_def report_def)
  have n: "schedule (notify_complete e opts (text_of (s_title s)) ?w2) = [] \<and>
     isConnected (notify_complete e opts (text_of (s_title s)) ?w2) = isConnected ?w2 \<and>
     download_settings (notify_complete e opts (text_of (s_title s)) ?w2) = download_settings ?w2"
    using q1 by (intro notify_complete_quiet) simp
  have "downloaded_songs ?w3 = Some (manifest_of w @ [d])"
    using notify_complete_frame[of e opts "text_of (s_title s)" ?w2] m1 by (simp add: report_def)
  moreover have "schedule ?w3 = []" using n by (simp add: report_def)
  moreover have "isConnected ?w3 = isConnected w"
    using n f1 by (simp add: report_def transfers_only_def)
  moreover have "download_settings ?w3 = download_settings w"
    using n f1 by (simp add: report_def transfers_only_def)
  ultimately show ?thesis using res id by blast
qed

lemma downloadSong_quiet_success:
  assumes "schedule w = []" and "valid_song s" and "isConnected w"
    and "\<not> has_entry (text_of (s_id s)) w"
    and "\<not> exceeds (usage_of w + calculateTotalSize s opts) (maxStorageSize (settings_of w))"
  shows "\<exists>d w'. downloadSong e (Some s) opts cb w = (Inr (Some d), w') \<and>
           d_id d = text_of (s_id s) \<and> downloaded_songs w' = Some (manifest_of w @ [d]) \<and>
           schedule w' = [] \<and> isConnected w' = isConnected w \<and>
           download_settings w' = download_settings w"
proof -
  have p: "preconditions s opts w = (Inr Proceed, w)"
    using assms by (simp add: preconditions_quiet)
  from acquire_quiet[OF assms(1), of e s opts cb] obtain d fs w' where
    a: "acquire e s opts cb w = (Inr (Some d), fs, w')" and
    rest: "d_id d = text_of (s_id s)" "downloaded_songs w' = Some (manifest_of w @ [d])"
      "schedule w' = []" "isConnected w' = isConnected w"
      "download_settings w' = download_settings w" by blast
  from downloadSong_acquired[OF p a] rest show ?thesis by blast
qed

lemma has_entry_find:
  "has_entry sid w \<longleftrightarrow> find (\<lambda>song. d_id song = sid) (manifest_of w) \<noteq> None"
  by (auto simp: has_entry_def list_ex_iff find_None_iff)

lemma report_frame:
  "downloaded_songs (report cb p w) = downloaded_songs w" "files (report cb p w) = files w"
  "schedule (report cb p w) = schedule w" "isConnected (report cb p w) = isConnected w"
  "download_settings (report cb p w) = download_settings w"
  by (simp_all add: report_def)

lemma report_events: "events (report cb p w) = events w @ (if cb then [p] else [])"
  by (simp add: report_def)

lemma downloadSong_returns:
  "song \<noteq> None \<or> \<not> cb \<Longrightarrow> \<exists>r. fst (downloadSong e song opts cb w) = Inr r"
  by (auto simp: downloadSong_def Let_def split: prod.splits sum.splits option.splits)

lemma transfer_artifacts_nothing:
  assumes "falsy_str (lyricsUrl s)"
    and "includeAudio opts \<noteq> Some True \<or> falsy_str (audioUrl s)"
    and "includeNotation opts \<noteq> Some True \<or> falsy_str (notationUrl s)"
  shows "transfer_artifacts e s opts cb ds w = (Inr ds, [], w)"
  using assms by (auto simp: transfer_artifacts_def wanted_def Let_def)

lemma usage_of_sum: "usage_of w = sum_list (map totalSize (manifest_of w))"
proof -
  have "foldl (\<lambda>total song. total + totalSize song) a xs = a + sum_list (map totalSize xs)"
    for a :: int and xs :: "DownloadedSong list"
    by (induction xs arbitrary: a) simp_all
  from this[of 0 "manifest_of w"] show ?thesis by (simp add: usage_of_def)
qed

lemma calculateTotalSize_sum:
  "calculateTotalSize s opts =
     num_of (advisory sz_lyrics s)
       + (if includeAudio opts = Some True then num_of (advisory sz_audio s) else 0)
       + (if includeNotation opts = Some True then num_of (advisory sz_notation s) else 0)"
  by (auto simp: calculateTotalSize_def Let_def truthy_num_def num_of_def split: option.splits)

lemma find_append_new:
  "find P xs = None \<Longrightarrow> P d \<Longrightarrow> find P (xs @ [d]) = Some d"
  by (induction xs) (auto split: if_splits)

lemma filter_none_of_find: "find P xs = None \<Longrightarrow> filter P xs = []"
  by (induction xs) (auto split: if_splits)

lemma filter_some_of_find: "find P xs = Some d \<Longrightarrow> filter P xs \<noteq> []"
  by (induction xs) (auto split: if_splits)

subsection \<open>Messages of failed transfers\<close>





subsection \<open>Calls under an arbitrary schedule\<close>

lemma past_fields:
  "downloaded_songs (past n w) = downloaded_songs w" "download_settings (past n w) = download_settings w"
  "files (past n w) = files w" "isConnected (past n w) = isConnected w"
  "events (past n w) = events w" "notifications (past n w) = notifications w"
  "schedule (past n w) = drop n (schedule w)"
  by (simp_all add: past_def)

lemma past_past: "past m (past n w) = past (n + m) w"
  by (simp add: past_def add.commute)

lemma outcome_at_past: "outcome_at (past n w) k = outcome_at w (n + k)"
  by (auto simp: outcome_at_def past_def)

lemma past_views:
  "manifest_of (past n w) = manifest_of w" "settings_of (past n w) = settings_of w"
  "usage_of (past n w) = usage_of w" "has_entry sid (past n w) = has_entry sid w"
  by (simp_all add: manifest_of_def settings_of_def usage_of_def has_entry_def past_def)

lemma next_outcome_past: "next_outcome w = (outcome_at w 0, past 1 w)"
  by (cases "schedule w") (simp_all add: next_outcome_def outcome_at_def past_def)

lemma getNetworkStateAsync_at:
  "\<not> throws (outcome_at w 0) \<Longrightarrow> getNetworkStateAsync w = (Inr (isConnected w), past 1 w)"
  by (simp add: getNetworkStateAsync_def next_outcome_past throws_def past_fields
      split: outcome.splits)

lemma getItem_DOWNLOAD_SETTINGS_at:
  "\<not> throws (outcome_at w 0) \<Longrightarrow>
   getItem_DOWNLOAD_SETTINGS w = (Inr (download_settings w), past 1 w)"
  by (simp add: getItem_DOWNLOAD_SETTINGS_def next_outcome_past throws_def past_fields
      split: outcome.splits)

lemma setItem_DOWNLOADED_SONGS_at:
  "\<not> throws (outcome_at w 0) \<Longrightarrow>
   setItem_DOWNLOADED_SONGS xs w = (Inr (), (past 1 w)\<lparr>downloaded_songs := Some xs\<rparr>)"
  by (simp add: setItem_DOWNLOADED_SONGS_def next_outcome_past throws_def
      split: outcome.splits)

lemma setItem_DOWNLOADED_SONGS_thrown:
  "outcome_at w 0 = Throws m \<Longrightarrow> setItem_DOWNLOADED_SONGS xs w = (Inl m, past 1 w)"
  by (simp add: setItem_DOWNLOADED_SONGS_def next_outcome_past)

lemma getDownloadedSongs_at:
  "getDownloadedSongs w = (if throws (outcome_at w 0) then [] else manifest_of w, past 1 w)"
  by (simp add: getDownloadedSongs_def getItem_DOWNLOADED_SONGS_def next_outcome_past throws_def
      manifest_of_def past_fields split: outcome.splits option.splits)

lemma isSongDownloaded_at:
  "isSongDownloaded sid w = (\<not> throws (outcome_at w 0) \<and> has_entry sid w, past 1 w)"
  by (simp add: isSongDownloaded_def getDownloadedSongs_at has_entry_def)

lemma getDownloadedSong_at:
  "getDownloadedSong sid w =
     (if throws (outcome_at w 0) then None else find (\<lambda>song. d_id song = sid) (manifest_of w),
      past 1 w)"
  by (simp add: getDownloadedSong_def getDownloadedSongs_at)

lemma getCurrentStorageUsage_at:
  "getCurrentStorageUsage w = (if throws (outcome_at w 0) then 0 else usage_of w, past 1 w)"
  by (simp add: getCurrentStorageUsage_def getDownloadedSongs_at usage_of_def)



lemma preconditions_at:
  assumes "valid_song s" and "\<not> throws (outcome_at w 0)"
  shows "preconditions s opts w =
     (if \<not> isConnected w then (Inl ''No internet connection'', past 1 w)
      else if \<not> throws (outcome_at w 1) \<and> has_entry (text_of (s_id s)) w
        then (Inr (CacheHit (if throws (outcome_at w 2) then None
                             else find (\<lambda>song. d_id song = text_of (s_id s)) (manifest_of w))),
              past 3 w)
      else case outcome_at w 2 of
             Throws m \<Rightarrow> (Inl m, past 3 w)
           | _ \<Rightarrow>
             if exceeds ((if throws (outcome_at w 3) then 0 else usage_of w)
                          + calculateTotalSize s opts) (maxStorageSize (settings_of w))
             then (Inl ''Not enough storage space'', past 4 w)
             else (Inr Proceed, past 4 w))"
proof -
  have v: "\<not> (falsy_str (s_id s) \<or> falsy_str (s_title s))"
    using assms(1) by (simp add: valid_song_def)
  have n: "getNetworkStateAsync w = (Inr (isConnected w), past 1 w)"
    using assms(2) by (rule getNetworkStateAsync_at)
  have g: "getItem_DOWNLOAD_SETTINGS (past 2 w) =
     (case outcome_at w 2 of Throws m \<Rightarrow> (Inl m, past 3 w)
      | _ \<Rightarrow> (Inr (download_settings w), past 3 w))"
    by (simp add: getItem_DOWNLOAD_SETTINGS_def next_outcome_past past_past outcome_at_past
        past_fields split: outcome.splits)
  have st: "(case download_settings w of None \<Rightarrow> DEFAULT_SETTINGS | Some stored \<Rightarrow> stored)
      = settings_of w"
    by (simp add: settings_of_def)
  have i: "isSongDownloaded (text_of (s_id s)) (past 1 w)
      = (\<not> throws (outcome_at w 1) \<and> has_entry (text_of (s_id s)) w, past 2 w)"
    by (simp add: isSongDownloaded_at past_past outcome_at_past past_views eval_nat_numeral)
  have d: "getDownloadedSong (text_of (s_id s)) (past 2 w)
      = (if throws (outcome_at w 2) then None
         else find (\<lambda>song. d_id song = text_of (s_id s)) (manifest_of w), past 3 w)"
    by (simp add: getDownloadedSong_at past_past outcome_at_past past_views eval_nat_numeral)
  have u: "getCurrentStorageUsage (past 3 w)
      = (if throws (outcome_at w 3) then 0 else usage_of w, past 4 w)"
    by (simp add: getCurrentStorageUsage_at past_past outcome_at_past past_views eval_nat_numeral)
  show ?thesis
    unfolding preconditions_def
    by (simp add: v n i d g u st Let_def del: One_nat_def split: outcome.splits)
qed


lemma outcome_at_report: "outcome_at (report cb p w) k = outcome_at w k"
  by (simp add: outcome_at_def report_def)

lemma manifest_of_report: "manifest_of (report cb p w) = manifest_of w"
  by (simp add: manifest_of_def report_def)

lemma report_failed:
  "report cb (failed s m) w
     = w\<lparr>events := events w @
          (if cb then [\<lparr>songId = s_id s, progress = 0, status = Failed, error = Some m\<rparr>]
           else [])\<rparr>"
  by (simp add: report_def failed_def)

lemma downloadSong_try_precondition_failure:
  "preconditions s opts w = (Inl m, w1) \<Longrightarrow> fst (downloadSong_try e (Some s) opts cb w) = Inl m"
  by (simp add: downloadSong_try_def)

lemma downloadSong_try_cache_hit:
  "preconditions s opts w = (Inr (CacheHit r), w1) \<Longrightarrow>
   fst (downloadSong_try e (Some s) opts cb w) = Inr r"
  by (simp add: downloadSong_try_def)

lemma save_download_at:
  assumes "\<not> throws (outcome_at w 0)" and "\<not> throws (outcome_at w 1)"
  shows "save_download ds w
     = (Inr (), (past 2 w)\<lparr>downloaded_songs := Some (manifest_of w @ [ds])\<rparr>)"
proof -
  have "\<not> throws (outcome_at (past 1 w) 0)" using assms(2) by (simp add: outcome_at_past)
  from setItem_DOWNLOADED_SONGS_at[OF this] assms(1) show ?thesis
    by (simp add: save_download_def getDownloadedSongs_at past_past eval_nat_numeral)
qed

lemma past_quiet: "schedule w = [] \<Longrightarrow> past n w = w"
  by (simp add: past_def)

section \<open>C1: a failed transfer rolls the download back\<close>


text \<open>
  The comment of the \<open>catch\<close> block reads "Clean up any partially downloaded files",
  but a path enters \<open>downloadedFiles\<close> only after its transfer has succeeded. What
  the failed transfer itself has left at its destination is therefore not deleted:
  on the platform \<open>env1\<close> the three bytes of the audio of song C stay, while the
  lyrics file, whose transfer had completed, is removed.
\<close>

lemma failed_transfer_leaves_partial_file:
  "fst (downloadSong env1 (Some songC) with_audio True world_c) = Inr None \<and>
   files world_c ''doc/downloads/audio/C_audio.mp3'' = None \<and>
   files (snd (downloadSong env1 (Some songC) with_audio True world_c))
     ''doc/downloads/audio/C_audio.mp3'' = Some 3 \<and>
   files (snd (downloadSong env1 (Some songC) with_audio True world_c))
     ''doc/downloads/lyrics/C_lyrics.txt'' = None"
  by (simp add: model_defs sample_defs world_c_def)



section \<open>C2: quota admission\<close>

text \<open>
  C2 says that every call of \<open>downloadSong\<close> for a song that is not in the manifest
  returns \<open>null\<close> with the quota error and writes no file when the current usage plus
  the candidate size is above \<open>maxStorageSize\<close>, and is admitted otherwise.

  As stated this fails: the quota is the last of four preconditions. In
  \<open>world_a1000_offline\<close> song B is not in the manifest and its 950 bytes on top of
  the 100 in use are above the quota of 1000, yet the network is down and the error
  reported is \<open>No internet connection\<close>.
\<close>

theorem offline_masks_quota_error:
  "valid_song songB \<and> \<not> has_entry ''B'' world_a1000_offline \<and>
   exceeds (usage_of world_a1000_offline + calculateTotalSize songB lyrics_only)
     (maxStorageSize (settings_of world_a1000_offline)) \<and>
   downloadSong env0 (Some songB) lyrics_only True world_a1000_offline
     = (Inr None, world_a1000_offline\<lparr>events := [failed songB ''No internet connection'']\<rparr>) \<and>
   error (failed songB ''No internet connection'') \<noteq> Some ''Not enough storage space''"
  by (simp add: model_defs sample_defs world_a_def world_a1000_def world_a1000_offline_def valid_song_def has_entry_def manifest_of_def
      usage_of_def settings_of_def)

text \<open>
  C2 as amended: for a song with id and title, in a connected world where no call of
  a collaborator throws, and whose id is not in the manifest. If the usage plus the
  candidate size is above the quota, \<open>downloadSong\<close> returns \<open>null\<close>, the error is
  \<open>Not enough storage space\<close> and the file store is untouched; otherwise the
  preconditions let the call through and the download returns an entry. The quota is
  \<open>maxStorageSize\<close> of the stored settings, or of the defaults when none are stored,
  and nothing exceeds a quota that is missing. The usage is the sum of \<open>totalSize\<close>
  over the manifest. The candidate size is the advisory size of the lyrics, plus that
  of the audio when \<open>includeAudio\<close> is set, plus that of the notation when
  \<open>includeNotation\<close> is set.
\<close>

theorem quota_admission:
  assumes "valid_song s" and "schedule w = []" and "isConnected w"
    and "\<not> has_entry (text_of (s_id s)) w"
  shows "(exceeds (usage_of w + calculateTotalSize s opts) (maxStorageSize (settings_of w)) \<longrightarrow>
            downloadSong e (Some s) opts cb w
              = (Inr None, report cb (failed s ''Not enough storage space'') w) \<and>
            files (snd (downloadSong e (Some s) opts cb w)) = files w) \<and>
         (\<not> exceeds (usage_of w + calculateTotalSize s opts) (maxStorageSize (settings_of w)) \<longrightarrow>
            preconditions s opts w = (Inr Proceed, w) \<and>
            (\<exists>d. fst (downloadSong e (Some s) opts cb w) = Inr (Some d))) \<and>
         exceeds (usage_of w + calculateTotalSize s opts) (maxStorageSize (settings_of w))
           = (case maxStorageSize (settings_of w) of
                None \<Rightarrow> False
              | Some limit \<Rightarrow> usage_of w + calculateTotalSize s opts > limit) \<and>
         usage_of w = sum_list (map totalSize (manifest_of w)) \<and>
         calculateTotalSize s opts =
           num_of (advisory sz_lyrics s)
             + (if includeAudio opts = Some True then num_of (advisory sz_audio s) else 0)
             + (if includeNotation opts = Some True then num_of (advisory sz_notation s) else 0)"
proof -
  have a: "exceeds (usage_of w + calculateTotalSize s opts) (maxStorageSize (settings_of w)) \<longrightarrow>
            downloadSong e (Some s) opts cb w
              = (Inr None, report cb (failed s ''Not enough storage space'') w) \<and>
            files (snd (downloadSong e (Some s) opts cb w)) = files w"
    using assms by (simp add: preconditions_quiet downloadSong_precondition_failure report_def)
  have b: "\<not> exceeds (usage_of w + calculateTotalSize s opts) (maxStorageSize (settings_of w)) \<longrightarrow>
            preconditions s opts w = (Inr Proceed, w) \<and>
            (\<exists>d. fst (downloadSong e (Some s) opts cb w) = Inr (Some d))"
  proof
    assume n: "\<not> exceeds (usage_of w + calculateTotalSize s opts) (maxStorageSize (settings_of w))"
    from downloadSong_quiet_success[OF assms(2,1,3,4) n, of e cb]
    have "\<exists>d. fst (downloadSong e (Some s) opts cb w) = Inr (Some d)" by force
    moreover have "preconditions s opts w = (Inr Proceed, w)"
      using assms n by (simp add: preconditions_quiet)
    ultimately show "preconditions s opts w = (Inr Proceed, w) \<and>
            (\<exists>d. fst (downloadSong e (Some s) opts cb w) = Inr (Some d))" by simp
  qed
  have c: "exceeds (usage_of w + calculateTotalSize s opts) (maxStorageSize (settings_of w))
           = (case maxStorageSize (settings_of w) of
                None \<Rightarrow> False
              | Some limit \<Rightarrow> usage_of w + calculateTotalSize s opts > limit)"
    by (simp add: exceeds_def)
  from a b c usage_of_sum[of w] calculateTotalSize_sum[of s opts] show ?thesis by blast
qed

theorem quota_admission_witness:
  "valid_song songB \<and> schedule world_a1000 = [] \<and> isConnected world_a1000 \<and>
   \<not> has_entry (text_of (s_id songB)) world_a1000 \<and>
   usage_of world_a1000 = 100 \<and> calculateTotalSize songB lyrics_only = 950 \<and>
   maxStorageSize (settings_of world_a1000) = Some 1000 \<and>
   downloadSong env0 (Some songB) lyrics_only True world_a1000
     = (Inr None, world_a1000\<lparr>events := [failed songB ''Not enough storage space'']\<rparr>) \<and>
   files (snd (downloadSong env0 (Some songB) lyrics_only True world_a1000)) = files world_a1000 \<and>
   valid_song songC \<and> \<not> has_entry (text_of (s_id songC)) world_a1000 \<and>
   calculateTotalSize songC lyrics_only = 100 \<and>
   calculateTotalSize songC with_audio = 400 \<and>
   preconditions songC lyrics_only world_a1000 = (Inr Proceed, world_a1000) \<and>
   (\<exists>d. fst (downloadSong env0 (Some songC) lyrics_only True world_a1000) = Inr (Some d))"
proof -
  have h: "valid_song songB" "schedule world_a1000 = []" "isConnected world_a1000"
      "\<not> has_entry (text_of (s_id songB)) world_a1000"
      "valid_song songC" "\<not> has_entry (text_of (s_id songC)) world_a1000"
    by (simp_all add: valid_song_def falsy_str_def has_entry_def manifest_of_def text_of_def
        sample_defs world_a_def world_a1000_def)
  have v: "sum_list (map totalSize (manifest_of world_a1000)) = 100"
      "maxStorageSize (settings_of world_a1000) = Some 1000"
      "num_of (advisory sz_lyrics songB) = 950" "num_of (advisory sz_lyrics songC) = 100"
      "num_of (advisory sz_audio songC) = 300"
      "includeAudio lyrics_only \<noteq> Some True" "includeNotation lyrics_only \<noteq> Some True"
      "includeAudio with_audio = Some True" "includeNotation with_audio \<noteq> Some True"
      "events world_a1000 = []"
    by (simp_all add: manifest_of_def settings_of_def num_of_def advisory_def DEFAULT_SETTINGS_def
        sample_defs world_a_def world_a1000_def)
  note b = quota_admission[OF h(1-4), of lyrics_only env0 True]
  note c = quota_admission[OF h(5,2,3,6), of lyrics_only env0 True]
  note c' = quota_admission[OF h(5,2,3,6), of with_audio env0 True]
  have u: "usage_of world_a1000 = 100" using b v by simp
  have sb: "calculateTotalSize songB lyrics_only = 950" using b v by simp
  have sc: "calculateTotalSize songC lyrics_only = 100" using c v by simp
  have sc': "calculateTotalSize songC with_audio = 400" using c' v by simp
  have eb: "exceeds (usage_of world_a1000 + calculateTotalSize songB lyrics_only)
              (maxStorageSize (settings_of world_a1000))"
    using b u sb v by simp
  have ec: "\<not> exceeds (usage_of world_a1000 + calculateTotalSize songC lyrics_only)
              (maxStorageSize (settings_of world_a1000))"
    using c u sc v by simp
  have rb: "downloadSong env0 (Some songB) lyrics_only True world_a1000
     = (Inr None, world_a1000\<lparr>events := [failed songB ''Not enough storage space'']\<rparr>)"
    "files (snd (downloadSong env0 (Some songB) lyrics_only True world_a1000)) = files world_a1000"
    using b eb v by (simp_all add: report_def)
  have rc: "preconditions songC lyrics_only world_a1000 = (Inr Proceed, world_a1000)"
    "\<exists>d. fst (downloadSong env0 (Some songC) lyrics_only True world_a1000) = Inr (Some d)"
    using c ec by blast+
  from h v u sb sc sc' rb rc show ?thesis by blast
qed

section \<open>C3: downloading again is a cache hit\<close>

text \<open>
  C3 says that for every song id that is in the manifest \<open>downloadSong\<close> returns the
  stored entry and neither transfers nor writes anything, so that two calls with the
  same input return the same entry and the manifest has exactly one entry for the id.

  As stated this fails: validity and connectivity are checked before the manifest is
  looked at. In \<open>world_a_offline\<close> song A is in the manifest and the network is down:
  \<open>downloadSong\<close> returns \<open>null\<close>.
\<close>

theorem offline_cache_hit_fails:
  "valid_song songA \<and> schedule world_a_offline = [] \<and>
   find (\<lambda>song. d_id song = ''A'') (manifest_of world_a_offline) = Some entryA \<and>
   downloadSong env0 (Some songA) lyrics_only True world_a_offline
     = (Inr None, world_a_offline\<lparr>events := [failed songA ''No internet connection'']\<rparr>)"
  by (simp add: model_defs sample_defs world_a_def world_a_offline_def valid_song_def manifest_of_def)

text \<open>
  C3 as amended: for a song with id and title, in a connected world where no call of
  a collaborator throws. If the first entry of the manifest with the id of the song is
  \<open>d\<close>, \<open>downloadSong\<close> returns \<open>d\<close> and leaves the world exactly as it was. If the
  manifest has at most one entry with that id, a second call, made in the world the
  first call leaves, returns what the first call returned; and when the first call
  returned an entry, the manifest has exactly one entry with that id afterwards.
\<close>

theorem repeated_download_is_cache_hit:
  assumes "valid_song s" and "schedule w = []" and "isConnected w"
  shows "(find (\<lambda>song. d_id song = text_of (s_id s)) (manifest_of w) = Some d \<longrightarrow>
            downloadSong e (Some s) opts cb w = (Inr (Some d), w)) \<and>
         (length (filter (\<lambda>song. d_id song = text_of (s_id s)) (manifest_of w)) \<le> 1 \<longrightarrow>
            fst (downloadSong e (Some s) opts cb (snd (downloadSong e (Some s) opts cb w)))
              = fst (downloadSong e (Some s) opts cb w) \<and>
            (fst (downloadSong e (Some s) opts cb w) \<noteq> Inr None \<longrightarrow>
               length (filter (\<lambda>song. d_id song = text_of (s_id s))
                 (manifest_of (snd (downloadSong e (Some s) opts cb
                    (snd (downloadSong e (Some s) opts cb w)))))) = 1))"
proof -
  let ?i = "text_of (s_id s)"
  let ?P = "\<lambda>song. d_id song = ?i"
  have hit: "downloadSong e (Some s) opts cb v = (Inr (Some x), v)"
    if "schedule v = []" "isConnected v" "find ?P (manifest_of v) = Some x" for v x
    using that assms(1)
    by (simp add: preconditions_quiet downloadSong_cache_hit has_entry_find)
  have twice: "fst (downloadSong e (Some s) opts cb (snd (downloadSong e (Some s) opts cb w)))
              = fst (downloadSong e (Some s) opts cb w) \<and>
            (fst (downloadSong e (Some s) opts cb w) \<noteq> Inr None \<longrightarrow>
               length (filter ?P
                 (manifest_of (snd (downloadSong e (Some s) opts cb
                    (snd (downloadSong e (Some s) opts cb w)))))) = 1)"
    if le: "length (filter ?P (manifest_of w)) \<le> 1"
  proof (cases "find ?P (manifest_of w)")
    case (Some x)
    have "filter ?P (manifest_of w) \<noteq> []" using Some by (rule filter_some_of_find)
    with le have "length (filter ?P (manifest_of w)) = 1"
      by (cases "filter ?P (manifest_of w)") auto
    with hit[OF assms(2,3) Some] show ?thesis by simp
  next
    case None
    then have absent: "\<not> has_entry ?i w" by (simp add: has_entry_find)
    show ?thesis
    proof (cases "exceeds (usage_of w + calculateTotalSize s opts) (maxStorageSize (settings_of w))")
      case True
      let ?w1 = "report cb (failed s ''Not enough storage space'') w"
      have r1: "downloadSong e (Some s) opts cb w = (Inr None, ?w1)"
        using assms absent True
        by (simp add: preconditions_quiet downloadSong_precondition_failure)
      have same: "schedule ?w1 = []" "isConnected ?w1" "manifest_of ?w1 = manifest_of w"
        "usage_of ?w1 = usage_of w" "settings_of ?w1 = settings_of w" "\<not> has_entry ?i ?w1"
        using assms absent
        by (simp_all add: report_frame manifest_of_def usage_of_def settings_of_def has_entry_def)
      have "downloadSong e (Some s) opts cb ?w1
              = (Inr None, report cb (failed s ''Not enough storage space'') ?w1)"
        using assms(1) same True
        by (simp add: preconditions_quiet downloadSong_precondition_failure)
      with r1 show ?thesis by simp
    next
      case False
      from downloadSong_quiet_success[OF assms(2,1,3) absent False, of e cb]
      obtain x w1 where r1: "downloadSong e (Some s) opts cb w = (Inr (Some x), w1)"
        and x: "d_id x = ?i" and m1: "downloaded_songs w1 = Some (manifest_of w @ [x])"
        and q1: "schedule w1 = []" and c1: "isConnected w1 = isConnected w"
        by blast
      have man1: "manifest_of w1 = manifest_of w @ [x]" using m1 by (simp add: manifest_of_def)
      have f1: "find ?P (manifest_of w1) = Some x"
        unfolding man1 using None x by (intro find_append_new) simp_all
      have c1': "isConnected w1" using c1 assms(3) by simp
      have r2: "downloadSong e (Some s) opts cb w1 = (Inr (Some x), w1)"
        using q1 c1' f1 by (rule hit)
      have "filter ?P (manifest_of w1) = [x]"
        unfolding man1 using filter_none_of_find[OF None] x by simp
      with r1 r2 show ?thesis by simp
    qed
  qed
  from hit[OF assms(2,3)] twice show ?thesis by blast
qed

theorem repeated_download_is_cache_hit_witness:
  "valid_song songA \<and> schedule world_a = [] \<and> isConnected world_a \<and>
   find (\<lambda>song. d_id song = text_of (s_id songA)) (manifest_of world_a) = Some entryA \<and>
   downloadSong env0 (Some songA) lyrics_only True world_a = (Inr (Some entryA), world_a) \<and>
   valid_song songC \<and>
   length (filter (\<lambda>song. d_id song = text_of (s_id songC)) (manifest_of world_a)) = 0 \<and>
   fst (downloadSong env0 (Some songC) with_audio True world_a) \<noteq> Inr None \<and>
   fst (downloadSong env0 (Some songC) with_audio True
          (snd (downloadSong env0 (Some songC) with_audio True world_a)))
     = fst (downloadSong env0 (Some songC) with_audio True world_a) \<and>
   length (filter (\<lambda>song. d_id song = text_of (s_id songC))
     (manifest_of (snd (downloadSong env0 (Some songC) with_audio True
        (snd (downloadSong env0 (Some songC) with_audio True world_a)))))) = 1"
proof -
  have h: "valid_song songA" "schedule world_a = []" "isConnected world_a" "valid_song songC"
    by (simp_all add: valid_song_def falsy_str_def sample_defs world_a_def)
  have f: "find (\<lambda>song. d_id song = text_of (s_id songA)) (manifest_of world_a) = Some entryA"
    "length (filter (\<lambda>song. d_id song = text_of (s_id songC)) (manifest_of world_a)) = 0"
    by (simp_all add: manifest_of_def text_of_def sample_defs world_a_def)
  have n: "fst (downloadSong env0 (Some songC) with_audio True world_a) \<noteq> Inr None"
    by (simp add: model_defs sample_defs world_a_def)
  have r1: "downloadSong env0 (Some songA) lyrics_only True world_a = (Inr (Some entryA), world_a)"
    using repeated_download_is_cache_hit[OF h(1-3), of entryA env0 lyrics_only True] f by blast
  have r2: "fst (downloadSong env0 (Some songC) with_audio True
          (snd (downloadSong env0 (Some songC) with_audio True world_a)))
     = fst (downloadSong env0 (Some songC) with_audio True world_a)"
   "length (filter (\<lambda>song. d_id song = text_of (s_id songC))
     (manifest_of (snd (downloadSong env0 (Some songC) with_audio True
        (snd (downloadSong env0 (Some songC) with_audio True world_a)))))) = 1"
    using repeated_download_is_cache_hit[OF h(4,2,3), of entryA env0 with_audio True] f(2) n
    by simp_all
  from h f n r1 r2 show ?thesis by blast
qed

section \<open>C4: the total size of a manifest entry\<close>

text \<open>
  C4: every entry of the manifest has \<open>totalSize\<close> equal to the sum of the sizes of the
  artifact records it has, and \<open>downloadSong\<close>, \<open>deleteSong\<close> and \<open>clearAllDownloads\<close>
  keep it so. The theorem holds for every song (also \<open>null\<close>), every choice of options
  and every schedule of failures; a store with no manifest item satisfies the invariant.
\<close>

theorem size_invariant_preserved:
  "(downloaded_songs w0 = None \<longrightarrow> manifest_consistent w0) \<and>
   (manifest_consistent w \<longrightarrow>
      manifest_consistent (snd (downloadSong e song opts cb w)) \<and>
      manifest_consistent (snd (deleteSong sid w)) \<and>
      manifest_consistent (snd (clearAllDownloads w)))"
proof -
  have "downloaded_songs w0 = None \<longrightarrow> manifest_consistent w0"
    by (simp add: manifest_consistent_def manifest_of_def)
  then show ?thesis
    by (simp add: downloadSong_consistent deleteSong_consistent clearAllDownloads_consistent)
qed

theorem size_invariant_preserved_witness:
  "manifest_consistent world_a \<and>
   manifest_consistent (snd (downloadSong env0 (Some songC) with_audio True world_a)) \<and>
   map totalSize (manifest_of (snd (downloadSong env0 (Some songC) with_audio True world_a)))
     = [100, 14] \<and>
   manifest_consistent (snd (deleteSong ''A'' world_a)) \<and>
   manifest_consistent (snd (clearAllDownloads world_a))"
proof -
  have a: "manifest_consistent world_a"
    by (simp add: manifest_consistent_def manifest_of_def size_consistent_def artifact_size_def
        world_a_def sample_defs)
  have b: "map totalSize (manifest_of (snd (downloadSong env0 (Some songC) with_audio True world_a)))
     = [100, 14]"
    by (simp add: model_defs sample_defs world_a_def manifest_of_def)
  from size_invariant_preserved[of world_a world_a env0 "Some songC" with_audio True "''A''"] a b
  show ?thesis by simp
qed

section \<open>C5: deleting a song\<close>




section \<open>C6: clearing all downloads\<close>



section \<open>C7: reading the settings\<close>

text \<open>
  C7 says that \<open>getDownloadSettings\<close> returns the stored settings merged with the
  defaults, a field the stored object lacks taking its default.

  As stated this fails: the function returns the parsed item as it is. In
  \<open>world_partial\<close> the stored object has \<open>maxStorageSize\<close> only, and the result has no
  \<open>autoDownloadOnWifi\<close>, where the merge would give \<open>false\<close>.
\<close>

theorem stored_partial_settings_not_merged:
  "autoDownloadOnWifi (fst (getDownloadSettings world_partial)) = None \<and>
   autoDownloadOnWifi (spec_merged_settings (download_settings world_partial)) = Some False \<and>
   fst (getDownloadSettings world_partial) \<noteq> spec_merged_settings (download_settings world_partial)"
  by (simp add: model_defs getDownloadSettings_def sample_defs world_partial_def spec_merged_settings_def
      spread_settings_def)

text \<open>
  C7 as amended. \<open>getDownloadSettings\<close> returns the defaults when the read throws or
  nothing is stored, and the stored object unchanged otherwise, without merging it with
  the defaults. When the read does not throw, the result is the merge of the stored
  object with the defaults exactly when nothing is stored or the stored object has all
  five fields. The defaults are 500 MiB, \<open>false\<close>, \<open>false\<close>, \<open>false\<close> and \<open>true\<close>.
\<close>

theorem getDownloadSettings_stored_or_defaults:
  "fst (getDownloadSettings w) =
     (if throws (outcome_at w 0) then DEFAULT_SETTINGS
      else case download_settings w of None \<Rightarrow> DEFAULT_SETTINGS | Some s \<Rightarrow> s) \<and>
   (\<not> throws (outcome_at w 0) \<longrightarrow>
      (fst (getDownloadSettings w) = spec_merged_settings (download_settings w)
       \<longleftrightarrow> (case download_settings w of None \<Rightarrow> True | Some s \<Rightarrow> all_fields_present s))) \<and>
   DEFAULT_SETTINGS =
     \<lparr>maxStorageSize = Some 524288000, autoDownloadOnWifi = Some False,
      downloadAudioByDefault = Some False, downloadNotationByDefault = Some False,
      notifyOnComplete = Some True\<rparr>"
proof -
  have a: "fst (getDownloadSettings w) =
     (if throws (outcome_at w 0) then DEFAULT_SETTINGS
      else case download_settings w of None \<Rightarrow> DEFAULT_SETTINGS | Some s \<Rightarrow> s)"
    using next_outcome_head[of w] next_outcome_frame[of w "fst (next_outcome w)" "snd (next_outcome w)"]
    by (auto simp: getDownloadSettings_def getItem_DOWNLOAD_SETTINGS_def throws_def
        split: prod.splits outcome.splits option.splits sum.splits)
  have b: "all_fields_present s \<Longrightarrow> spread_settings DEFAULT_SETTINGS s = s" for s
    by (cases s) (auto simp: all_fields_present_def spread_settings_def)
  have full: "all_fields_present (spread_settings DEFAULT_SETTINGS s)" for s
    by (cases s) (auto simp: all_fields_present_def spread_settings_def DEFAULT_SETTINGS_def
        split: option.splits)
  have b': "spread_settings DEFAULT_SETTINGS s = s \<Longrightarrow> all_fields_present s" for s
    using full[of s] by simp
  have c: "DEFAULT_SETTINGS =
     \<lparr>maxStorageSize = Some 524288000, autoDownloadOnWifi = Some False,
      downloadAudioByDefault = Some False, downloadNotationByDefault = Some False,
      notifyOnComplete = Some True\<rparr>"
    by (simp add: DEFAULT_SETTINGS_def)
  have d: "\<not> throws (outcome_at w 0) \<longrightarrow>
      (fst (getDownloadSettings w) = spec_merged_settings (download_settings w)
       \<longleftrightarrow> (case download_settings w of None \<Rightarrow> True | Some s \<Rightarrow> all_fields_present s))"
  proof (cases "download_settings w")
    case None
    with a show ?thesis by (simp add: spec_merged_settings_def)
  next
    case (Some s)
    have "(s = spread_settings DEFAULT_SETTINGS s) = all_fields_present s"
      using b[of s] b'[of s] by auto
    with a Some show ?thesis by (simp add: spec_merged_settings_def)
  qed
  from a c d show ?thesis by blast
qed

theorem getDownloadSettings_stored_or_defaults_witness:
  "\<not> throws (outcome_at world_partial 0) \<and>
   fst (getDownloadSettings world_partial) =
     \<lparr>maxStorageSize = Some 1000, autoDownloadOnWifi = None, downloadAudioByDefault = None,
      downloadNotationByDefault = None, notifyOnComplete = None\<rparr> \<and>
   fst (getDownloadSettings world_partial) \<noteq> spec_merged_settings (download_settings world_partial) \<and>
   \<not> throws (outcome_at empty_world 0) \<and> download_settings empty_world = None \<and>
   fst (getDownloadSettings empty_world) = spec_merged_settings (download_settings empty_world) \<and>
   fst (getDownloadSettings empty_world) = DEFAULT_SETTINGS"
proof -
  have h: "\<not> throws (outcome_at empty_world 0)" "download_settings empty_world = None"
      "\<not> throws (outcome_at world_partial 0)"
    by (simp_all add: throws_def outcome_at_def empty_world_def world_partial_def)
  have n: "download_settings world_partial =
      Some \<lparr>maxStorageSize = Some 1000, autoDownloadOnWifi = None, downloadAudioByDefault = None,
            downloadNotationByDefault = None, notifyOnComplete = None\<rparr>"
    "\<not> all_fields_present
        \<lparr>maxStorageSize = Some 1000, autoDownloadOnWifi = None, downloadAudioByDefault = None,
         downloadNotationByDefault = None, notifyOnComplete = None\<rparr>"
    by (simp_all add: world_partial_def empty_world_def all_fields_present_def)
  note p = getDownloadSettings_stored_or_defaults[of world_partial]
  note q = getDownloadSettings_stored_or_defaults[of empty_world]
  have r1: "fst (getDownloadSettings world_partial) =
     \<lparr>maxStorageSize = Some 1000, autoDownloadOnWifi = None, downloadAudioByDefault = None,
      downloadNotationByDefault = None, notifyOnComplete = None\<rparr>"
    using p h n by simp
  from p h(3) have "(fst (getDownloadSettings world_partial)
        = spec_merged_settings (download_settings world_partial))
      = (case download_settings world_partial of None \<Rightarrow> True
         | Some s \<Rightarrow> all_fields_present s)"
    by blast
  with n have r2: "fst (getDownloadSettings world_partial)
      \<noteq> spec_merged_settings (download_settings world_partial)"
    by simp
  have r3: "fst (getDownloadSettings empty_world)
      = spec_merged_settings (download_settings empty_world)"
    "fst (getDownloadSettings empty_world) = DEFAULT_SETTINGS"
    using q h by (simp_all add: spec_merged_settings_def)
  from h r1 r2 r3 show ?thesis by blast
qed

section \<open>C8: the order of the preconditions\<close>

text \<open>
  C8 says that \<open>downloadSong\<close> checks its preconditions in a fixed order, each a hard
  stop returning \<open>null\<close>: a missing id or title fails first, then a disconnected
  network, then an id already downloaded short-circuits to a cache hit, and last comes
  the quota.

  As stated this fails for the cache hit: \<open>isSongDownloaded\<close> reads the manifest
  through \<open>getDownloadedSongs\<close>, which answers a read that throws with the empty
  list. In \<open>world_a_locked\<close> song A is in the manifest and that read throws: the
  call does not short-circuit but transfers the lyrics again, overwrites the file and
  appends a second entry with the id of song A.
\<close>

theorem read_failure_defeats_cache_hit:
  "valid_song songA \<and> isConnected world_a_locked \<and> has_entry ''A'' world_a_locked \<and>
   outcome_at world_a_locked 1 = Throws ''EACCES'' \<and>
   fst (downloadSong env0 (Some songA) lyrics_only True world_a_locked)
     = Inr (Some \<lparr>d_id = ''A'', d_number = 1, d_title = ''Hymn A'',
                  downloadDate = ''2024-05-01T10:00:00.000Z'',
                  d_lyrics = Some \<lparr>localUri = ''doc/downloads/lyrics/A_lyrics.txt'', a_size = 7\<rparr>,
                  d_audio = None, d_notation = None, totalSize = 7\<rparr>) \<and>
   map d_id (manifest_of (snd (downloadSong env0 (Some songA) lyrics_only True world_a_locked)))
     = [''A'', ''A''] \<and>
   files (snd (downloadSong env0 (Some songA) lyrics_only True world_a_locked))
     ''doc/downloads/lyrics/A_lyrics.txt'' = Some 7 \<and>
   events (snd (downloadSong env0 (Some songA) lyrics_only True world_a_locked))
     = [\<lparr>songId = Some ''A'', progress = 0, status = Downloading, error = None\<rparr>,
        \<lparr>songId = Some ''A'', progress = 1, status = Completed, error = None\<rparr>]"
  by (simp add: model_defs sample_defs world_a_def world_a_locked_def valid_song_def
      has_entry_def manifest_of_def outcome_at_def)

text \<open>
  C8 as amended. \<open>downloadSong\<close> checks its preconditions in a fixed order; the
  first that fails decides the outcome, whatever the later ones would say, and the
  calls of collaborators behind the later ones are not made (\<open>past k w\<close> is \<open>w\<close>
  after its next \<open>k\<close> calls of collaborators). A song without id or title
  fails with \<open>Invalid song data\<close> before any collaborator is called. For a song with
  id and title: when the network query does not throw and the network is down, the call
  fails with \<open>No internet connection\<close> after that one call; when the network is up
  and the manifest read of \<open>isSongDownloaded\<close> does not throw and finds the id, the
  call returns after three calls without an error and without an event, and what it
  returns is the stored entry when the read of \<open>getDownloadedSong\<close> does not throw;
  when the network is up, the id is not in the manifest, the settings read and the
  manifest read for the usage do not throw, and the usage plus the requested size
  exceeds the quota, the call fails with \<open>Not enough storage space\<close> after four
  calls. Each failure returns \<open>null\<close>, reports the event \<open>failed\<close> with progress 0
  and that message when a progress callback was passed, and changes nothing else.
\<close>

theorem preconditions_in_order:
  "(\<not> valid_song s \<longrightarrow>
      fst (downloadSong_try e (Some s) opts cb w) = Inl ''Invalid song data'' \<and>
      downloadSong e (Some s) opts cb w
        = (Inr None,
           w\<lparr>events := events w @
               (if cb then [\<lparr>songId = s_id s, progress = 0, status = Failed,
                             error = Some ''Invalid song data''\<rparr>] else [])\<rparr>)) \<and>
   (valid_song s \<and> \<not> throws (outcome_at w 0) \<and> \<not> isConnected w \<longrightarrow>
      fst (downloadSong_try e (Some s) opts cb w) = Inl ''No internet connection'' \<and>
      downloadSong e (Some s) opts cb w
        = (Inr None,
           (past 1 w)\<lparr>events := events w @
               (if cb then [\<lparr>songId = s_id s, progress = 0, status = Failed,
                             error = Some ''No internet connection''\<rparr>] else [])\<rparr>)) \<and>
   (valid_song s \<and> \<not> throws (outcome_at w 0) \<and> isConnected w \<and>
    \<not> throws (outcome_at w 1) \<and> has_entry (text_of (s_id s)) w \<longrightarrow>
      (\<exists>r. fst (downloadSong_try e (Some s) opts cb w) = Inr r) \<and>
      snd (downloadSong e (Some s) opts cb w) = past 3 w \<and>
      (\<not> throws (outcome_at w 2) \<longrightarrow>
         fst (downloadSong e (Some s) opts cb w)
           = Inr (find (\<lambda>song. d_id song = text_of (s_id s)) (manifest_of w)))) \<and>
   (valid_song s \<and> \<not> throws (outcome_at w 0) \<and> isConnected w \<and>
    \<not> has_entry (text_of (s_id s)) w \<and> \<not> throws (outcome_at w 2) \<and>
    \<not> throws (outcome_at w 3) \<and>
    exceeds (usage_of w + calculateTotalSize s opts) (maxStorageSize (settings_of w)) \<longrightarrow>
      fst (downloadSong_try e (Some s) opts cb w) = Inl ''Not enough storage space'' \<and>
      downloadSong e (Some s) opts cb w
        = (Inr None,
           (past 4 w)\<lparr>events := events w @
               (if cb then [\<lparr>songId = s_id s, progress = 0, status = Failed,
                             error = Some ''Not enough storage space''\<rparr>] else [])\<rparr>))"
proof -
  have c1: "fst (downloadSong_try e (Some s) opts cb w) = Inl ''Invalid song data'' \<and>
      downloadSong e (Some s) opts cb w
        = (Inr None,
           w\<lparr>events := events w @
               (if cb then [\<lparr>songId = s_id s, progress = 0, status = Failed,
                             error = Some ''Invalid song data''\<rparr>] else [])\<rparr>)"
    if "\<not> valid_song s"
    using preconditions_invalid[OF that, of opts w]
    by (simp add: downloadSong_try_precondition_failure downloadSong_precondition_failure
        report_failed)
  have c2: "fst (downloadSong_try e (Some s) opts cb w) = Inl ''No internet connection'' \<and>
      downloadSong e (Some s) opts cb w
        = (Inr None,
           (past 1 w)\<lparr>events := events w @
               (if cb then [\<lparr>songId = s_id s, progress = 0, status = Failed,
                             error = Some ''No internet connection''\<rparr>] else [])\<rparr>)"
    if "valid_song s" "\<not> throws (outcome_at w 0)" "\<not> isConnected w"
  proof -
    have "preconditions s opts w = (Inl ''No internet connection'', past 1 w)"
      using that by (simp add: preconditions_at)
    then show ?thesis
      by (simp add: downloadSong_try_precondition_failure downloadSong_precondition_failure
          report_failed past_fields)
  qed
  have c3: "(\<exists>r. fst (downloadSong_try e (Some s) opts cb w) = Inr r) \<and>
      snd (downloadSong e (Some s) opts cb w) = past 3 w \<and>
      (\<not> throws (outcome_at w 2) \<longrightarrow>
         fst (downloadSong e (Some s) opts cb w)
           = Inr (find (\<lambda>song. d_id song = text_of (s_id s)) (manifest_of w)))"
    if "valid_song s" "\<not> throws (outcome_at w 0)" "isConnected w"
      "\<not> throws (outcome_at w 1)" "has_entry (text_of (s_id s)) w"
  proof -
    have "preconditions s opts w =
       (Inr (CacheHit (if throws (outcome_at w 2) then None
                       else find (\<lambda>song. d_id song = text_of (s_id s)) (manifest_of w))),
        past 3 w)"
      using that by (simp add: preconditions_at)
    then show ?thesis
      by (simp add: downloadSong_try_cache_hit downloadSong_cache_hit)
  qed
  have c4: "fst (downloadSong_try e (Some s) opts cb w) = Inl ''Not enough storage space'' \<and>
      downloadSong e (Some s) opts cb w
        = (Inr None,
           (past 4 w)\<lparr>events := events w @
               (if cb then [\<lparr>songId = s_id s, progress = 0, status = Failed,
                             error = Some ''Not enough storage space''\<rparr>] else [])\<rparr>)"
    if "valid_song s" "\<not> throws (outcome_at w 0)" "isConnected w"
      "\<not> has_entry (text_of (s_id s)) w" "\<not> throws (outcome_at w 2)"
      "\<not> throws (outcome_at w 3)"
      "exceeds (usage_of w + calculateTotalSize s opts) (maxStorageSize (settings_of w))"
  proof -
    have "preconditions s opts w = (Inl ''Not enough storage space'', past 4 w)"
      using that by (simp add: preconditions_at throws_def split: outcome.splits)
    then show ?thesis
      by (simp add: downloadSong_try_precondition_failure downloadSong_precondition_failure
          report_failed past_fields)
  qed
  from c1 c2 c3 c4 show ?thesis by blast
qed

theorem preconditions_in_order_witness:
  "\<not> valid_song song_untitled \<and> \<not> isConnected world_a1000_offline \<and>
   has_entry ''A'' world_a1000_offline \<and>
   fst (downloadSong_try env0 (Some song_untitled) lyrics_only True world_a1000_offline)
     = Inl ''Invalid song data'' \<and>
   downloadSong env0 (Some song_untitled) lyrics_only True world_a1000_offline
     = (Inr None,
        world_a1000_offline\<lparr>events :=
          [\<lparr>songId = Some ''A'', progress = 0, status = Failed,
            error = Some ''Invalid song data''\<rparr>]\<rparr>) \<and>
   valid_song songA \<and> \<not> throws (outcome_at world_a1000_offline 0) \<and>
   fst (downloadSong_try env0 (Some songA) lyrics_only True world_a1000_offline)
     = Inl ''No internet connection'' \<and>
   downloadSong env0 (Some songA) lyrics_only True world_a1000_offline
     = (Inr None,
        world_a1000_offline\<lparr>events :=
          [\<lparr>songId = Some ''A'', progress = 0, status = Failed,
            error = Some ''No internet connection''\<rparr>]\<rparr>) \<and>
   valid_song songA_big \<and> \<not> throws (outcome_at world_a1000 0) \<and> isConnected world_a1000 \<and>
   \<not> throws (outcome_at world_a1000 1) \<and> \<not> throws (outcome_at world_a1000 2) \<and>
   has_entry (text_of (s_id songA_big)) world_a1000 \<and>
   exceeds (usage_of world_a1000 + calculateTotalSize songA_big lyrics_only)
     (maxStorageSize (settings_of world_a1000)) \<and>
   downloadSong env0 (Some songA_big) lyrics_only True world_a1000
     = (Inr (Some entryA), world_a1000) \<and>
   valid_song songB \<and> \<not> has_entry (text_of (s_id songB)) world_a1000 \<and>
   \<not> throws (outcome_at world_a1000 3) \<and>
   exceeds (usage_of world_a1000 + calculateTotalSize songB lyrics_only)
     (maxStorageSize (settings_of world_a1000)) \<and>
   fst (downloadSong_try env0 (Some songB) lyrics_only True world_a1000)
     = Inl ''Not enough storage space'' \<and>
   downloadSong env0 (Some songB) lyrics_only True world_a1000
     = (Inr None,
        world_a1000\<lparr>events :=
          [\<lparr>songId = Some ''B'', progress = 0, status = Failed,
            error = Some ''Not enough storage space''\<rparr>]\<rparr>)"
proof -
  have h1: "\<not> valid_song song_untitled" "\<not> isConnected world_a1000_offline"
      "has_entry ''A'' world_a1000_offline" "valid_song songA"
      "\<not> throws (outcome_at world_a1000_offline 0)"
    by (simp_all add: valid_song_def falsy_str_def has_entry_def manifest_of_def sample_defs
        world_a_def world_a1000_def world_a1000_offline_def song_untitled_def
        throws_def outcome_at_def)
  have h2: "valid_song songA_big" "\<not> throws (outcome_at world_a1000 0)" "isConnected world_a1000"
      "\<not> throws (outcome_at world_a1000 1)" "\<not> throws (outcome_at world_a1000 2)"
      "\<not> throws (outcome_at world_a1000 3)"
      "has_entry (text_of (s_id songA_big)) world_a1000"
      "exceeds (usage_of world_a1000 + calculateTotalSize songA_big lyrics_only)
         (maxStorageSize (settings_of world_a1000))"
    by (simp_all add: valid_song_def falsy_str_def has_entry_def manifest_of_def text_of_def
        exceeds_def usage_of_def settings_of_def calculateTotalSize_def advisory_def
        truthy_num_def num_of_def DEFAULT_SETTINGS_def sample_defs world_a_def world_a1000_def
        songA_big_def throws_def outcome_at_def)
  have h3: "valid_song songB" "\<not> has_entry (text_of (s_id songB)) world_a1000"
      "exceeds (usage_of world_a1000 + calculateTotalSize songB lyrics_only)
         (maxStorageSize (settings_of world_a1000))"
    by (simp_all add: valid_song_def falsy_str_def has_entry_def manifest_of_def text_of_def
        exceeds_def usage_of_def settings_of_def calculateTotalSize_def advisory_def
        truthy_num_def num_of_def DEFAULT_SETTINGS_def sample_defs world_a_def world_a1000_def)
  have ev: "events world_a1000_offline = []" "events world_a1000 = []"
      "schedule world_a1000_offline = []" "schedule world_a1000 = []"
    by (simp_all add: sample_defs world_a_def world_a1000_def world_a1000_offline_def)
  have ids: "s_id song_untitled = Some ''A''" "s_id songA = Some ''A''" "s_id songB = Some ''B''"
    by (simp_all add: sample_defs song_untitled_def)
  have f: "find (\<lambda>song. d_id song = text_of (s_id songA_big)) (manifest_of world_a1000)
      = Some entryA"
    by (simp add: manifest_of_def text_of_def sample_defs world_a_def world_a1000_def
        songA_big_def)
  have r1: "fst (downloadSong_try env0 (Some song_untitled) lyrics_only True world_a1000_offline)
     = Inl ''Invalid song data''"
    "downloadSong env0 (Some song_untitled) lyrics_only True world_a1000_offline
     = (Inr None,
        world_a1000_offline\<lparr>events :=
          [\<lparr>songId = Some ''A'', progress = 0, status = Failed,
            error = Some ''Invalid song data''\<rparr>]\<rparr>)"
    using preconditions_in_order[of song_untitled env0 lyrics_only True world_a1000_offline]
      h1 ev ids by simp_all
  have r2: "fst (downloadSong_try env0 (Some songA) lyrics_only True world_a1000_offline)
     = Inl ''No internet connection''"
    "downloadSong env0 (Some songA) lyrics_only True world_a1000_offline
     = (Inr None,
        world_a1000_offline\<lparr>events :=
          [\<lparr>songId = Some ''A'', progress = 0, status = Failed,
            error = Some ''No internet connection''\<rparr>]\<rparr>)"
    using preconditions_in_order[of songA env0 lyrics_only True world_a1000_offline]
      h1 ev ids by (simp_all add: past_quiet)
  have r3: "downloadSong env0 (Some songA_big) lyrics_only True world_a1000
     = (Inr (Some entryA), world_a1000)"
    using preconditions_in_order[of songA_big env0 lyrics_only True world_a1000] h2 f ev
    by (simp add: past_quiet prod_eq_iff)
  have r4: "fst (downloadSong_try env0 (Some songB) lyrics_only True world_a1000)
     = Inl ''Not enough storage space''"
    "downloadSong env0 (Some songB) lyrics_only True world_a1000
     = (Inr None,
        world_a1000\<lparr>events :=
          [\<lparr>songId = Some ''B'', progress = 0, status = Failed,
            error = Some ''Not enough storage space''\<rparr>]\<rparr>)"
    using preconditions_in_order[of songB env0 lyrics_only True world_a1000] h2 h3 ev ids
    by (simp_all add: past_quiet)
  from h1 h2 h3 r1 r2 r3 r4 show ?thesis by blast
qed

section \<open>C9: exceptions that reach the caller\<close>

text \<open>
  C9 says that \<open>downloadSong\<close> never lets an exception reach its caller, for every
  song, \<open>null\<close> included. The code fails it: for a \<open>null\<close> song the \<open>try\<close> block
  throws \<open>Invalid song data\<close>, and the \<open>catch\<close> block, building the event for the
  progress callback, reads \<open>song.id\<close>. That read throws a \<open>TypeError\<close> outside any
  \<open>try\<close>, so the promise is rejected. The theorem evaluates the call with a
  \<open>null\<close> song and a progress callback, in any world, and shows that this is the
  only case: a \<open>null\<close> song without a callback and every song that is not \<open>null\<close>
  make \<open>downloadSong\<close> return a value, whatever the collaborators do.
\<close>

theorem null_song_with_callback_rejects:
  "downloadSong e None opts True w = (Inl TypeError, w) \<and>
   (\<exists>r. fst (downloadSong e None opts False w) = Inr r) \<and>
   (\<exists>r. fst (downloadSong e (Some s) opts cb w) = Inr r)"
proof -
  have "downloadSong e None opts True w = (Inl TypeError, w)"
    by (simp add: downloadSong_def downloadSong_try_def)
  moreover have "\<exists>r. fst (downloadSong e None opts False w) = Inr r"
    by (rule downloadSong_returns) simp
  moreover have "\<exists>r. fst (downloadSong e (Some s) opts cb w) = Inr r"
    by (rule downloadSong_returns) simp
  ultimately show ?thesis by blast
qed

section \<open>C10: a download with nothing to transfer\<close>

text \<open>
  C10 says that for a valid, connected, not yet downloaded and quota-admitted song
  without \<open>lyricsUrl\<close>, and with audio and notation not requested or without URL,
  \<open>downloadSong\<close> transfers nothing and still succeeds: it appends an entry without
  artifact records and with \<open>totalSize\<close> 0 to the manifest, reports \<open>completed\<close>
  and returns the entry.

  As stated this fails: the manifest is written inside the \<open>try\<close> block, and a
  write that throws sends the call to the \<open>catch\<close> block. In \<open>world_a_full\<close> the
  sixth call of a collaborator, that write, throws: for song D, which meets every
  condition of the claim, the call returns \<open>null\<close>, its last event is \<open>failed\<close>,
  and the manifest is as it was.
\<close>

theorem manifest_write_failure_fails_empty_download:
  "valid_song songD \<and> isConnected world_a_full \<and> \<not> has_entry ''D'' world_a_full \<and>
   \<not> exceeds (usage_of world_a_full + calculateTotalSize songD lyrics_only)
       (maxStorageSize (settings_of world_a_full)) \<and>
   falsy_str (lyricsUrl songD) \<and> includeAudio lyrics_only \<noteq> Some True \<and>
   includeNotation lyrics_only \<noteq> Some True \<and>
   outcome_at world_a_full 5 = Throws ''full'' \<and>
   downloadSong env0 (Some songD) lyrics_only True world_a_full
     = (Inr None,
        world_a\<lparr>events :=
          [\<lparr>songId = Some ''D'', progress = 0, status = Downloading, error = None\<rparr>,
           \<lparr>songId = Some ''D'', progress = 0, status = Failed, error = Some ''full''\<rparr>]\<rparr>)"
  by (simp add: model_defs sample_defs world_a_def world_a_full_def valid_song_def
      has_entry_def manifest_of_def outcome_at_def usage_of_def settings_of_def)

text \<open>
  C10 as amended. Let the song have id and title, the network be up, the song not be
  in the manifest, the usage plus the requested size not exceed the quota, and let the
  network query, the settings read, the manifest read for the usage, the manifest read
  before the write and the manifest write (the calls 0, 2, 3, 4 and 5 of
  collaborators) not throw. If the song has no \<open>lyricsUrl\<close>, and audio and notation
  are either not requested or have no URL, then \<open>downloadSong\<close> transfers nothing
  and succeeds: it returns the new entry, which has the id, number and title of the
  song, the current time, no artifact record and \<open>totalSize\<close> 0; the manifest is the
  old one with that entry appended; the file store is untouched; when a progress
  callback was passed, the events of the call are \<open>downloading\<close> with progress 0 and
  then \<open>completed\<close> with progress 1.
\<close>

theorem empty_download_succeeds:
  assumes "valid_song s" and "isConnected w" and "\<not> has_entry (text_of (s_id s)) w"
    and "\<not> exceeds (usage_of w + calculateTotalSize s opts) (maxStorageSize (settings_of w))"
    and "falsy_str (lyricsUrl s)"
    and "includeAudio opts \<noteq> Some True \<or> falsy_str (audioUrl s)"
    and "includeNotation opts \<noteq> Some True \<or> falsy_str (notationUrl s)"
    and "\<not> throws (outcome_at w 0)" and "\<not> throws (outcome_at w 2)"
    and "\<not> throws (outcome_at w 3)" and "\<not> throws (outcome_at w 4)"
    and "\<not> throws (outcome_at w 5)"
  shows "fst (downloadSong e (Some s) opts cb w) = Inr (Some (new_download e s)) \<and>
         manifest_of (snd (downloadSong e (Some s) opts cb w))
           = manifest_of w @ [new_download e s] \<and>
         files (snd (downloadSong e (Some s) opts cb w)) = files w \<and>
         events (snd (downloadSong e (Some s) opts cb w))
           = events w @
             (if cb
              then [\<lparr>songId = s_id s, progress = 0, status = Downloading, error = None\<rparr>,
                    \<lparr>songId = s_id s, progress = 1, status = Completed, error = None\<rparr>]
              else []) \<and>
         new_download e s
           = \<lparr>d_id = text_of (s_id s), d_number = s_number s, d_title = text_of (s_title s),
              downloadDate = now e, d_lyrics = None, d_audio = None, d_notation = None,
              totalSize = 0\<rparr>"
proof -
  let ?n = "new_download e s" and ?w0 = "report cb (started s) (past 4 w)"
  let ?w2 = "(past 2 ?w0)\<lparr>downloaded_songs := Some (manifest_of w @ [?n])\<rparr>"
  let ?w3 = "report cb (completed s) (notify_complete e opts (text_of (s_title s)) ?w2)"
  have p: "preconditions s opts w = (Inr Proceed, past 4 w)"
    using assms(1-4,8-10) by (simp add: preconditions_at throws_def split: outcome.splits)
  have t: "transfer_artifacts e s opts cb ?n ?w0 = (Inr ?n, [], ?w0)"
    using assms(5-7) by (rule transfer_artifacts_nothing)
  have q: "\<not> throws (outcome_at ?w0 0)" "\<not> throws (outcome_at ?w0 1)"
    using assms(11,12) by (simp_all add: outcome_at_report outcome_at_past)
  have sv: "save_download ?n ?w0 = (Inr (), ?w2)"
    using save_download_at[OF q, of ?n] by (simp add: manifest_of_report past_views)
  have a: "acquire e s opts cb (past 4 w) = (Inr (Some ?n), [], ?w3)"
    using t sv by (simp add: acquire_def)
  have res: "downloadSong e (Some s) opts cb w = (Inr (Some ?n), ?w3)"
    using p a by (rule downloadSong_acquired)
  have fr: "downloaded_songs ?w3 = downloaded_songs ?w2" "files ?w3 = files ?w2"
    "events ?w3 = events ?w2 @ (if cb then [completed s] else [])"
    using notify_complete_frame[of e opts "text_of (s_title s)" ?w2]
    by (simp_all add: report_frame report_events)
  show ?thesis unfolding res
    using fr
    by (simp add: manifest_of_def report_frame report_events new_download_def past_fields
        started_def completed_def)
qed


theorem empty_download_succeeds_witness:
  "valid_song songD \<and> isConnected world_a_locked \<and>
   \<not> has_entry (text_of (s_id songD)) world_a_locked \<and>
   \<not> exceeds (usage_of world_a_locked + calculateTotalSize songD lyrics_only)
       (maxStorageSize (settings_of world_a_locked)) \<and>
   falsy_str (lyricsUrl songD) \<and> includeAudio lyrics_only \<noteq> Some True \<and>
   includeNotation lyrics_only \<noteq> Some True \<and>
   \<not> throws (outcome_at world_a_locked 0) \<and> \<not> throws (outcome_at world_a_locked 2) \<and>
   \<not> throws (outcome_at world_a_locked 3) \<and> \<not> throws (outcome_at world_a_locked 4) \<and>
   \<not> throws (outcome_at world_a_locked 5) \<and>
   fst (downloadSong env0 (Some songD) lyrics_only True world_a_locked)
     = Inr (Some \<lparr>d_id = ''D'', d_number = 4, d_title = ''Hymn D'',
                  downloadDate = ''2024-05-01T10:00:00.000Z'', d_lyrics = None, d_audio = None,
                  d_notation = None, totalSize = 0\<rparr>) \<and>
   manifest_of (snd (downloadSong env0 (Some songD) lyrics_only True world_a_locked))
     = [entryA,
        \<lparr>d_id = ''D'', d_number = 4, d_title = ''Hymn D'',
         downloadDate = ''2024-05-01T10:00:00.000Z'', d_lyrics = None, d_audio = None,
         d_notation = None, totalSize = 0\<rparr>] \<and>
   files (snd (downloadSong env0 (Some songD) lyrics_only True world_a_locked))
     = files world_a_locked \<and>
   events (snd (downloadSong env0 (Some songD) lyrics_only True world_a_locked))
     = [\<lparr>songId = Some ''D'', progress = 0, status = Downloading, error = None\<rparr>,
        \<lparr>songId = Some ''D'', progress = 1, status = Completed, error = None\<rparr>]"
proof -
  have h: "valid_song songD" "isConnected world_a_locked"
      "\<not> has_entry (text_of (s_id songD)) world_a_locked"
      "\<not> exceeds (usage_of world_a_locked + calculateTotalSize songD lyrics_only)
          (maxStorageSize (settings_of world_a_locked))"
      "falsy_str (lyricsUrl songD)"
    by (simp_all add: valid_song_def falsy_str_def has_entry_def manifest_of_def text_of_def
        exceeds_def usage_of_def settings_of_def calculateTotalSize_def advisory_def
        truthy_num_def num_of_def DEFAULT_SETTINGS_def sample_defs world_a_def
        world_a_locked_def)
  have o: "includeAudio lyrics_only \<noteq> Some True" "includeNotation lyrics_only \<noteq> Some True"
    by (simp_all add: lyrics_only_def)
  have q: "\<not> throws (outcome_at world_a_locked 0)" "\<not> throws (outcome_at world_a_locked 2)"
      "\<not> throws (outcome_at world_a_locked 3)" "\<not> throws (outcome_at world_a_locked 4)"
      "\<not> throws (outcome_at world_a_locked 5)"
    by (simp_all add: throws_def outcome_at_def world_a_locked_def)
  have m: "manifest_of world_a_locked = [entryA]" "events world_a_locked = []"
      "s_id songD = Some ''D''"
    by (simp_all add: manifest_of_def sample_defs world_a_def world_a_locked_def)
  have n: "new_download env0 songD
     = \<lparr>d_id = ''D'', d_number = 4, d_title = ''Hymn D'',
        downloadDate = ''2024-05-01T10:00:00.000Z'', d_lyrics = None, d_audio = None,
        d_notation = None, totalSize = 0\<rparr>"
    by (simp add: new_download_def text_of_def sample_defs)
  from empty_download_succeeds[OF h disjI1[OF o(1)] disjI1[OF o(2)] q, of env0 True] h o q m n
  show ?thesis by simp
qed

end
